theory Spec2Isabelle
  imports Main "HOL-Library.Sublist"
begin

section \<open>Python values handled by the job\<close>

subsection \<open>Text\<close>

text \<open>
  \<open>str_int\<close> is \<open>str()\<close> of a Python \<open>int\<close>, as the f-strings of the source apply it.
  \<open>zfill\<close> pads on the left with zeros, \<open>lower\<close> is \<open>str.lower()\<close> on ASCII letters.
\<close>

definition digit :: "nat \<Rightarrow> char" where
  "digit n = ''0123456789'' ! n"

fun str_nat :: "nat \<Rightarrow> string" where
  "str_nat n = (if n < 10 then [digit n] else str_nat (n div 10) @ [digit (n mod 10)])"

declare str_nat.simps [simp del]

definition str_int :: "int \<Rightarrow> string" where
  "str_int i = (if i < 0 then CHR ''-'' # str_nat (nat (- i)) else str_nat (nat i))"

definition zfill :: "nat \<Rightarrow> string \<Rightarrow> string" where
  "zfill n s = replicate (n - length s) (CHR ''0'') @ s"

definition lower_char :: "char \<Rightarrow> char" where
  "lower_char c =
     (case map_of (zip ''ABCDEFGHIJKLMNOPQRSTUVWXYZ'' ''abcdefghijklmnopqrstuvwxyz'') c of
        Some l \<Rightarrow> l
      | None \<Rightarrow> c)"

definition lower :: "string \<Rightarrow> string" where
  "lower s = map lower_char s"

definition quoted :: "string \<Rightarrow> string" where
  "quoted s = [CHR 0x27] @ s @ [CHR 0x27]"

text \<open>
  \<open>replace s old new\<close> is \<open>s.replace(old, new)\<close>: every occurrence of \<open>old\<close>, scanning
  from the left without overlap. The source never passes an empty \<open>old\<close>; there the
  model leaves the text as it is. \<open>contains s sub\<close> is \<open>sub in s\<close>.
\<close>

function replace :: "string \<Rightarrow> string \<Rightarrow> string \<Rightarrow> string" where
  "replace [] old new = []"
| "replace (c # cs) old new =
     (if old \<noteq> [] \<and> prefix old (c # cs)
      then new @ replace (drop (length old - 1) cs) old new
      else c # replace cs old new)"
  by pat_completeness auto
termination
  by (relation "measure (\<lambda>(s, old, new). length s)") auto

fun contains :: "string \<Rightarrow> string \<Rightarrow> bool" where
  "contains [] sub = (sub = [])"
| "contains (c # cs) sub = (prefix sub (c # cs) \<or> contains cs sub)"

subsection \<open>Exceptions\<close>

text \<open>
  The exception classes the handlers of the source tell apart, each with the text
  \<open>str(e)\<close> gives (for \<open>URLError\<close>: its \<open>reason\<close>). All are subclasses of \<open>Exception\<close>.
  \<open>UnicodeEncodeError\<close> and \<open>OSError\<close> are what writing to the console raises,
  \<open>RecursionError\<close> and \<open>ValueError\<close> what \<open>json.loads\<close> raises besides its own
  \<open>JSONDecodeError\<close>.
\<close>

datatype exn =
    JSONDecodeError string
  | AttributeError string
  | KeyError string
  | IndexError string
  | TypeError string
  | OverflowError string
  | URLError string
  | ProgrammingError string
  | DriverError string
  | ServiceError string
  | UnicodeEncodeError string
  | OSError string
  | RecursionError string
  | ValueError string
  | Failure string

fun exn_str :: "exn \<Rightarrow> string" where
  "exn_str (JSONDecodeError m) = m"
| "exn_str (AttributeError m) = m"
| "exn_str (KeyError m) = m"
| "exn_str (IndexError m) = m"
| "exn_str (TypeError m) = m"
| "exn_str (OverflowError m) = m"
| "exn_str (URLError r) = ''<urlopen error '' @ r @ ''>''"
| "exn_str (ProgrammingError m) = m"
| "exn_str (DriverError m) = m"
| "exn_str (ServiceError m) = m"
| "exn_str (UnicodeEncodeError m) = m"
| "exn_str (OSError m) = m"
| "exn_str (RecursionError m) = m"
| "exn_str (ValueError m) = m"
| "exn_str (Failure m) = m"

subsection \<open>Naive datetimes and strftime\<close>

text \<open>
  A naive \<open>datetime\<close> is its calendar fields. \<open>strftime\<close> interprets the directives the
  source uses (\<open>%Y %m %d %H %M %S %I %p\<close>, in the C locale the script runs in) and copies
  every other character. \<open>%Y\<close> is the year in decimal without padding, as the C
  library of Linux gives it: a year below 1000 has fewer than four digits.
\<close>

record datetime =
  year :: nat
  month :: nat
  day :: nat
  hour :: nat
  minute :: nat
  second :: nat
  microsecond :: nat

definition hour12 :: "nat \<Rightarrow> nat" where
  "hour12 h = (if h mod 12 = 0 then 12 else h mod 12)"

definition directive :: "datetime \<Rightarrow> char \<Rightarrow> string" where
  "directive d c =
     (if c = CHR ''Y'' then str_nat (year d)
      else if c = CHR ''m'' then zfill 2 (str_nat (month d))
      else if c = CHR ''d'' then zfill 2 (str_nat (day d))
      else if c = CHR ''H'' then zfill 2 (str_nat (hour d))
      else if c = CHR ''M'' then zfill 2 (str_nat (minute d))
      else if c = CHR ''S'' then zfill 2 (str_nat (second d))
      else if c = CHR ''I'' then zfill 2 (str_nat (hour12 (hour d)))
      else if c = CHR ''p'' then (if hour d < 12 then ''AM'' else ''PM'')
      else [CHR ''%'', c])"

fun strftime :: "datetime \<Rightarrow> string \<Rightarrow> string" where
  "strftime d (c # c' # fs) =
     (if c = CHR ''%'' then directive d c' @ strftime d fs else c # strftime d (c' # fs))"
| "strftime d fs = fs"

text \<open>
  Arithmetic on naive datetimes goes through the proleptic Gregorian ordinal, as the
  library does it: \<open>datetime_sub a b\<close> is the timedelta \<open>a - b\<close> in microseconds,
  \<open>datetime_add d td\<close> is \<open>d + td\<close>, which raises \<open>OverflowError\<close> outside the years
  1 to 9999.
\<close>

definition is_leap :: "nat \<Rightarrow> bool" where
  "is_leap y \<longleftrightarrow> y mod 4 = 0 \<and> (y mod 100 \<noteq> 0 \<or> y mod 400 = 0)"

definition days_before_year :: "nat \<Rightarrow> nat" where
  "days_before_year y = (let p = y - 1 in p * 365 + p div 4 - p div 100 + p div 400)"

definition days_in_month :: "bool \<Rightarrow> nat \<Rightarrow> nat" where
  "days_in_month leap m =
     (if m = 2 \<and> leap then 29 else [0, 31, 28, 31, 30, 31, 30, 31, 31, 30, 31, 30, 31] ! m)"

definition days_before_month :: "bool \<Rightarrow> nat \<Rightarrow> nat" where
  "days_before_month leap m =
     [0, 0, 31, 59, 90, 120, 151, 181, 212, 243, 273, 304, 334] ! m
       + (if m > 2 \<and> leap then 1 else 0)"

definition ymd2ord :: "nat \<Rightarrow> nat \<Rightarrow> nat \<Rightarrow> nat" where
  "ymd2ord y m d = days_before_year y + days_before_month (is_leap y) m + d"

definition ord2ymd :: "nat \<Rightarrow> nat \<times> nat \<times> nat" where
  "ord2ymd ordinal =
     (let n = ordinal - 1;
          n400 = n div 146097; n = n mod 146097;
          n100 = n div 36524; n = n mod 36524;
          n4 = n div 1461; n = n mod 1461;
          n1 = n div 365; n = n mod 365;
          y = n400 * 400 + 1 + n100 * 100 + n4 * 4 + n1
      in if n1 = 4 \<or> n100 = 4 then (y - 1, 12, 31)
         else
           (let leapyear = (n1 = 3 \<and> (n4 \<noteq> 24 \<or> n100 = 3));
                m = (n + 50) div 32;
                preceding = days_before_month leapyear m
            in if preceding > n
               then (y, m - 1, n - (preceding - days_in_month leapyear (m - 1)) + 1)
               else (y, m, n - preceding + 1)))"

definition to_micro :: "datetime \<Rightarrow> int" where
  "to_micro d =
     (((int (ymd2ord (year d) (month d) (day d)) * 24 + int (hour d)) * 60 + int (minute d)) * 60
        + int (second d)) * 1000000 + int (microsecond d)"

definition of_micro :: "int \<Rightarrow> datetime" where
  "of_micro us =
     (let n = nat us;
          days = n div 86400000000; r = n mod 86400000000
      in case ord2ymd days of (y, m, d) \<Rightarrow>
           \<lparr>year = y, month = m, day = d,
            hour = r div 3600000000, minute = r div 60000000 mod 60,
            second = r div 1000000 mod 60, microsecond = r mod 1000000\<rparr>)"

definition datetime_sub :: "datetime \<Rightarrow> datetime \<Rightarrow> int" where
  "datetime_sub a b = to_micro a - to_micro b"

definition datetime_add :: "datetime \<Rightarrow> int \<Rightarrow> exn + datetime" where
  "datetime_add d td =
     (let us = to_micro d + td
      in if 1 \<le> us div 86400000000 \<and> us div 86400000000 \<le> 3652059
         then Inr (of_micro us)
         else Inl (OverflowError ''date value out of range''))"

subsection \<open>JSON values\<close>

text \<open>
  What \<open>json.loads\<close> returns: a dict is kept as its key/value pairs (keys distinct, as in
  a Python dict). Numbers are the integers.
\<close>

datatype json =
    JNull
  | JBool bool
  | JInt int
  | JStr string
  | JList "json list"
  | JDict "(string \<times> json) list"

fun truthy :: "json \<Rightarrow> bool" where
  "truthy JNull = False"
| "truthy (JBool b) = b"
| "truthy (JInt n) = (n \<noteq> 0)"
| "truthy (JStr s) = (s \<noteq> [])"
| "truthy (JList xs) = (xs \<noteq> [])"
| "truthy (JDict kvs) = (kvs \<noteq> [])"

fun type_name :: "json \<Rightarrow> string" where
  "type_name JNull = ''NoneType''"
| "type_name (JBool b) = ''bool''"
| "type_name (JInt n) = ''int''"
| "type_name (JStr s) = ''str''"
| "type_name (JList xs) = ''list''"
| "type_name (JDict kvs) = ''dict''"

text \<open>The failure of an attribute that a value of the wrong type does not have.\<close>

definition no_attribute :: "json \<Rightarrow> string \<Rightarrow> exn" where
  "no_attribute v a =
     AttributeError (quoted (type_name v) @ '' object has no attribute '' @ quoted a)"

text \<open>
  \<open>v.get(k, dflt)\<close>, \<open>v[k]\<close> with a text key and \<open>v[0]\<close>, on whatever \<open>json.loads\<close>
  returned: only a dict has \<open>get\<close>; a text is indexed by position, a dict by key.
\<close>

definition dict_get :: "json \<Rightarrow> string \<Rightarrow> json \<Rightarrow> exn + json" where
  "dict_get v k dflt =
     (case v of
        JDict kvs \<Rightarrow> Inr (case map_of kvs k of Some x \<Rightarrow> x | None \<Rightarrow> dflt)
      | _ \<Rightarrow> Inl (no_attribute v ''get''))"

definition getitem_key :: "json \<Rightarrow> string \<Rightarrow> exn + json" where
  "getitem_key v k =
     (case v of
        JDict kvs \<Rightarrow> (case map_of kvs k of Some x \<Rightarrow> Inr x | None \<Rightarrow> Inl (KeyError (quoted k)))
      | JList xs \<Rightarrow> Inl (TypeError ''list indices must be integers or slices, not str'')
      | JStr t \<Rightarrow> Inl (TypeError ''string indices must be integers'')
      | _ \<Rightarrow> Inl (TypeError (quoted (type_name v) @ '' object is not subscriptable'')))"

definition getitem_first :: "json \<Rightarrow> exn + json" where
  "getitem_first v =
     (case v of
        JList xs \<Rightarrow> (case xs of [] \<Rightarrow> Inl (IndexError ''list index out of range'') | x # _ \<Rightarrow> Inr x)
      | JStr t \<Rightarrow> (case t of [] \<Rightarrow> Inl (IndexError ''string index out of range'') | c # _ \<Rightarrow> Inr (JStr [c]))
      | JDict kvs \<Rightarrow> Inl (KeyError ''0'')
      | _ \<Rightarrow> Inl (TypeError (quoted (type_name v) @ '' object is not subscriptable'')))"

section \<open>The collaborators: relational store, table store, console, clock\<close>

subsection \<open>Relational schema\<close>

record job_instances_row =
  ji_Id :: int
  ji_HasError :: bool
  ji_UpdatedDate :: "datetime option"
  ji_UpdatedBy :: "string option"

record job_data_row =
  jd_Id :: int
  jd_JobId :: int
  jd_JobFieldDescription :: string
  jd_JobStringValue :: "string option"
  jd_JobDateValue :: "datetime option"
  jd_CreatedDate :: "datetime option"
  jd_CreatedBy :: "string option"
  jd_UpdatedDate :: "datetime option"
  jd_UpdatedBy :: "string option"

text \<open>
  \<open>JobInstance\<close> holds (Id, JobScheduleId), \<open>JobSchedule\<close> holds (Id, JobId).
\<close>

record database =
  JobInstance :: "(int \<times> int) list"
  JobSchedule :: "(int \<times> int) list"
  JobInstances :: "job_instances_row list"
  JobData :: "job_data_row list"

subsection \<open>Table-store entities\<close>

record entity =
  PartitionKey :: string
  RowKey :: string
  Action :: string
  Details :: string
  Level :: string
  Timestamp :: datetime
  JobId :: int
  JobInstanceId :: int

subsection \<open>Calls on the collaborators\<close>

text \<open>
  The statements the source sends, with their parameters.
\<close>

datatype stmt =
    SelectJobId int
  | MarkInstanceError int
  | InsertError int string string
  | SelectLastRun int
  | SelectLastRunId int
  | UpdateLastRun datetime int
  | InsertLastRun int datetime

datatype db_call = Connect string | Cursor | Execute stmt | Fetchone | Commit | Close

datatype table_call = FromConnectionString string | CreateTable string | CreateEntity entity

text \<open>
  Every call that leaves the process is recorded in order, with whether it returned
  (\<open>True\<close>) or raised. \<open>LogErrorCalled\<close> marks an entry into \<open>log_error\<close> with its
  two arguments.
\<close>

datatype event =
    Printed string
  | Db db_call bool
  | Tbl table_call bool
  | LogErrorCalled string string

subsection \<open>Environment and world\<close>

text \<open>
  What the process cannot decide is read from the environment. Every reading of the
  clock, every random identifier and every call on a store takes the next index
  \<open>tick\<close>; \<open>db_fault\<close> and \<open>table_fault\<close> say whether the call at that index raises, and
  with which message. \<open>json_loads\<close> is the library's parser: it returns a value or
  raises, \<open>JSONDecodeError\<close> on text that is no JSON, and also \<open>RecursionError\<close> (nesting
  too deep) or \<open>ValueError\<close> (an integer literal too long). \<open>console_fault s\<close> is the
  failure of writing the line \<open>s\<close> to standard output: \<open>UnicodeEncodeError\<close> for a text
  the console's encoding does not have, \<open>OSError\<close> for a closed stream. \<open>step_fault k\<close>
  is a failure raised by step \<open>k\<close> of the running phase outside the handlers the steps
  install themselves: in the job as shipped only the interpreter can raise there, in
  a job built from it the job's own code.
\<close>

record env =
  has_pyodbc :: bool
  has_azure_tables :: bool
  drivers :: "string list"
  json_loads :: "string \<Rightarrow> exn + json"
  py_str :: "json \<Rightarrow> string"
  utcnow :: "nat \<Rightarrow> datetime"
  now :: "nat \<Rightarrow> datetime"
  uuid4 :: "nat \<Rightarrow> string"
  db_fault :: "nat \<Rightarrow> string option"
  table_fault :: "nat \<Rightarrow> string option"
  urlopen :: "exn + string"
  format_exc :: "exn \<Rightarrow> string"
  step_fault :: "nat \<Rightarrow> exn option"
  console_fault :: "string \<Rightarrow> exn option"

text \<open>
  A connection is a handle; while it is open the world holds its view of the
  database, which \<open>commit\<close> makes the stored one. One connection is open at a time
  (the job does not coordinate with other instances).
\<close>

type_synonym handle = nat

record world =
  tick :: nat
  trace :: "event list"
  stored :: database
  sessions :: "handle \<Rightarrow> database option"
  next_handle :: handle

subsection \<open>Programs: state and exceptions\<close>

type_synonym 'a prog = "world \<Rightarrow> (exn + 'a) \<times> world"

definition returns :: "'a \<Rightarrow> 'a prog" where
  "returns x w = (Inr x, w)"

definition raises :: "exn \<Rightarrow> 'a prog" where
  "raises e w = (Inl e, w)"

definition lift :: "exn + 'a \<Rightarrow> 'a prog" where
  "lift r w = (r, w)"

definition then_do :: "'a prog \<Rightarrow> ('a \<Rightarrow> 'b prog) \<Rightarrow> 'b prog" where
  "then_do m f w = (case m w of (Inl e, w') \<Rightarrow> (Inl e, w') | (Inr x, w') \<Rightarrow> f x w')"

definition try_except :: "'a prog \<Rightarrow> (exn \<Rightarrow> 'a prog) \<Rightarrow> 'a prog" where
  "try_except m h w = (case m w of (Inl e, w') \<Rightarrow> h e w' | (Inr x, w') \<Rightarrow> (Inr x, w'))"

text \<open>
  \<open>try: m finally: fin\<close>: the final block always runs; an exception it raises
  replaces the outcome of \<open>m\<close>.
\<close>

definition try_finally :: "'a prog \<Rightarrow> unit prog \<Rightarrow> 'a prog" where
  "try_finally m fin w =
     (case m w of (r, w') \<Rightarrow>
        (case fin w' of (Inl e, w'') \<Rightarrow> (Inl e, w'') | (Inr u, w'') \<Rightarrow> (r, w'')))"

definition emit :: "event \<Rightarrow> world \<Rightarrow> world" where
  "emit ev w = w\<lparr>trace := trace w @ [ev]\<rparr>"

definition advance :: "world \<Rightarrow> world" where
  "advance w = w\<lparr>tick := Suc (tick w)\<rparr>"

text \<open>
  \<open>print(s)\<close>: the line reaches the console, or the write raises and nothing is
  written.
\<close>

definition print :: "env \<Rightarrow> string \<Rightarrow> unit prog" where
  "print env s w =
     (case console_fault env s of
        Some e \<Rightarrow> (Inl e, w)
      | None \<Rightarrow> (Inr (), emit (Printed s) w))"

definition datetime_utcnow :: "env \<Rightarrow> datetime prog" where
  "datetime_utcnow env w = (Inr (utcnow env (tick w)), advance w)"

definition datetime_now :: "env \<Rightarrow> datetime prog" where
  "datetime_now env w = (Inr (now env (tick w)), advance w)"

text \<open>
  \<open>uuid.uuid4()\<close> as its 32 hexadecimal digits; \<open>str_uuid\<close> is \<open>str()\<close> of it.
\<close>

definition uuid_uuid4 :: "env \<Rightarrow> string prog" where
  "uuid_uuid4 env w = (Inr (uuid4 env (tick w)), advance w)"

definition str_uuid :: "string \<Rightarrow> string" where
  "str_uuid h =
     take 8 h @ ''-'' @ take 4 (drop 8 h) @ ''-'' @ take 4 (drop 12 h) @ ''-''
       @ take 4 (drop 16 h) @ ''-'' @ drop 20 h"

subsection \<open>The table-store client\<close>

definition table_call :: "env \<Rightarrow> table_call \<Rightarrow> unit prog" where
  "table_call env c w =
     (case table_fault env (tick w) of
        Some m \<Rightarrow> (Inl (ServiceError m), emit (Tbl c False) (advance w))
      | None \<Rightarrow> (Inr (), emit (Tbl c True) (advance w)))"

definition create_entity :: "env \<Rightarrow> entity \<Rightarrow> unit prog" where
  "create_entity env ent = table_call env (CreateEntity ent)"

text \<open>The table \<open>JobLogs\<close>: the entities the service accepted, in write order.\<close>

fun written :: "event list \<Rightarrow> entity list" where
  "written [] = []"
| "written (Tbl (CreateEntity ent) True # evs) = ent # written evs"
| "written (ev # evs) = written evs"

fun console :: "event list \<Rightarrow> string list" where
  "console [] = []"
| "console (Printed s # evs) = s # console evs"
| "console (ev # evs) = console evs"

subsection \<open>The relational driver\<close>

text \<open>
  What each statement does to the connection's view of the database. \<open>srv\<close> is the
  server's \<open>GETUTCDATE()\<close>. \<open>JobData.Id\<close> is generated by the server.
\<close>

definition fresh_id :: "job_data_row list \<Rightarrow> int" where
  "fresh_id rows = fold max (map jd_Id rows) 0 + 1"

definition is_last_run :: "int \<Rightarrow> job_data_row \<Rightarrow> bool" where
  "is_last_run jid r \<longleftrightarrow> jd_JobId r = jid \<and> jd_JobFieldDescription r = ''Last Job Run Time''"

fun apply_stmt :: "datetime \<Rightarrow> stmt \<Rightarrow> database \<Rightarrow> database" where
  "apply_stmt srv (MarkInstanceError iid) d =
     d\<lparr>JobInstances :=
         map (\<lambda>r. if ji_Id r = iid
                   then r\<lparr>ji_HasError := True, ji_UpdatedDate := Some srv,
                          ji_UpdatedBy := Some ''JobExecutor''\<rparr>
                   else r) (JobInstances d)\<rparr>"
| "apply_stmt srv (InsertError jid field_desc error_message) d =
     d\<lparr>JobData := JobData d @
         [\<lparr>jd_Id = fresh_id (JobData d), jd_JobId = jid, jd_JobFieldDescription = field_desc,
           jd_JobStringValue = Some error_message, jd_JobDateValue = None,
           jd_CreatedDate = Some srv, jd_CreatedBy = Some ''JobExecutor'',
           jd_UpdatedDate = None, jd_UpdatedBy = None\<rparr>]\<rparr>"
| "apply_stmt srv (UpdateLastRun current_time row_id) d =
     d\<lparr>JobData :=
         map (\<lambda>r. if jd_Id r = row_id
                   then r\<lparr>jd_JobDateValue := Some current_time, jd_UpdatedDate := Some srv,
                          jd_UpdatedBy := Some ''JobExecutor''\<rparr>
                   else r) (JobData d)\<rparr>"
| "apply_stmt srv (InsertLastRun jid current_time) d =
     d\<lparr>JobData := JobData d @
         [\<lparr>jd_Id = fresh_id (JobData d), jd_JobId = jid,
           jd_JobFieldDescription = ''Last Job Run Time'',
           jd_JobStringValue = None, jd_JobDateValue = Some current_time,
           jd_CreatedDate = Some srv, jd_CreatedBy = Some ''JobExecutor'',
           jd_UpdatedDate = None, jd_UpdatedBy = None\<rparr>]\<rparr>"
| "apply_stmt srv (SelectJobId iid) d = d"
| "apply_stmt srv (SelectLastRun jid) d = d"
| "apply_stmt srv (SelectLastRunId jid) d = d"

text \<open>The three queries; each result row is its single column.\<close>

definition select_job_id :: "int \<Rightarrow> database \<Rightarrow> int list" where
  "select_job_id iid d =
     concat (map (\<lambda>(ji_id, sched). map snd (filter (\<lambda>(js_id, jid). js_id = sched) (JobSchedule d)))
                 (filter (\<lambda>(ji_id, sched). ji_id = iid) (JobInstance d)))"

definition select_last_run :: "int \<Rightarrow> database \<Rightarrow> datetime option list" where
  "select_last_run jid d = map jd_JobDateValue (filter (is_last_run jid) (JobData d))"

definition select_last_run_id :: "int \<Rightarrow> database \<Rightarrow> int list" where
  "select_last_run_id jid d = map jd_Id (filter (is_last_run jid) (JobData d))"

text \<open>
  pyodbc rejects every call on a closed connection, \<open>close\<close> included, with
  \<open>ProgrammingError\<close>. A call on an open connection raises when \<open>db_fault\<close> says so and
  then leaves the view unchanged. Closing an open connection drops its view, and with
  it what was not committed; it does not raise.
\<close>

definition closed_connection :: exn where
  "closed_connection = ProgrammingError ''Attempt to use a closed connection.''"

definition driver_call :: "env \<Rightarrow> handle \<Rightarrow> db_call \<Rightarrow> (database \<Rightarrow> 'a \<times> database) \<Rightarrow> 'a prog" where
  "driver_call env h c f w =
     (case sessions w h of
        None \<Rightarrow> (Inl closed_connection, emit (Db c False) w)
      | Some d \<Rightarrow>
          (case db_fault env (tick w) of
             Some m \<Rightarrow> (Inl (DriverError m), emit (Db c False) (advance w))
           | None \<Rightarrow>
               (case f d of (x, d') \<Rightarrow>
                  (Inr x, emit (Db c True) (advance (w\<lparr>sessions := (sessions w)(h \<mapsto> d')\<rparr>))))))"

definition pyodbc_connect :: "env \<Rightarrow> string \<Rightarrow> handle prog" where
  "pyodbc_connect env cs w =
     (case db_fault env (tick w) of
        Some m \<Rightarrow> (Inl (DriverError m), emit (Db (Connect cs) False) (advance w))
      | None \<Rightarrow>
          (Inr (next_handle w),
           emit (Db (Connect cs) True)
             (advance (w\<lparr>sessions := (sessions w)(next_handle w \<mapsto> stored w),
                         next_handle := Suc (next_handle w)\<rparr>))))"

definition connection_cursor :: "env \<Rightarrow> handle \<Rightarrow> unit prog" where
  "connection_cursor env h = driver_call env h Cursor (\<lambda>d. ((), d))"

definition cursor_query :: "env \<Rightarrow> handle \<Rightarrow> stmt \<Rightarrow> (database \<Rightarrow> 'a list) \<Rightarrow> 'a list prog" where
  "cursor_query env h s q = driver_call env h (Execute s) (\<lambda>d. (q d, d))"

definition cursor_execute :: "env \<Rightarrow> handle \<Rightarrow> stmt \<Rightarrow> unit prog" where
  "cursor_execute env h s w =
     driver_call env h (Execute s) (\<lambda>d. ((), apply_stmt (utcnow env (tick w)) s d)) w"

definition cursor_fetchone :: "env \<Rightarrow> handle \<Rightarrow> 'a list \<Rightarrow> 'a option prog" where
  "cursor_fetchone env h rows =
     driver_call env h Fetchone (\<lambda>d. (case rows of [] \<Rightarrow> None | r # rs \<Rightarrow> Some r, d))"

definition connection_commit :: "env \<Rightarrow> handle \<Rightarrow> unit prog" where
  "connection_commit env h w =
     (case sessions w h of
        None \<Rightarrow> (Inl closed_connection, emit (Db Commit False) w)
      | Some d \<Rightarrow>
          (case db_fault env (tick w) of
             Some m \<Rightarrow> (Inl (DriverError m), emit (Db Commit False) (advance w))
           | None \<Rightarrow> (Inr (), emit (Db Commit True) (advance (w\<lparr>stored := d\<rparr>)))))"

definition connection_close :: "handle \<Rightarrow> unit prog" where
  "connection_close h w =
     (case sessions w h of
        None \<Rightarrow> (Inl closed_connection, emit (Db Close False) w)
      | Some d \<Rightarrow> (Inr (), emit (Db Close True) (w\<lparr>sessions := (sessions w)(h := None)\<rparr>)))"

section \<open>JobLogger\<close>

record logger =
  self_connection_string :: json
  self_job_instance_id :: int
  self_table_connection_string :: json
  self_connection :: "handle option"
  self_job_id :: int
  self_table_client :: bool

text \<open>\<open>_get_partition_key\<close> (lines 102-104).\<close>

definition get_partition_key :: "logger \<Rightarrow> string" where
  "get_partition_key self = str_int (self_job_id self) @ ''-'' @ str_int (self_job_instance_id self)"

text \<open>\<open>log_progress\<close> (lines 106-126).\<close>

definition log_progress :: "env \<Rightarrow> logger \<Rightarrow> string \<Rightarrow> string \<Rightarrow> unit prog" where
  "log_progress env self message level =
     then_do (datetime_utcnow env) (\<lambda>timestamp.
     then_do (print env (''['' @ strftime timestamp ''%Y-%m-%d %H:%M:%S'' @ ''] ['' @ level @ ''] '' @ message)) (\<lambda>_.
     if self_table_client self \<and> self_job_id self > 0 then
       try_except
         (then_do (uuid_uuid4 env) (\<lambda>u.
          then_do (datetime_utcnow env) (\<lambda>t.
          create_entity env
            \<lparr>PartitionKey = get_partition_key self, RowKey = str_uuid u,
             Action = ''JobProgress'', Details = message, Level = level, Timestamp = t,
             JobId = self_job_id self, JobInstanceId = self_job_instance_id self\<rparr>)))
         (\<lambda>e. print env (''[ERROR!] Failed to log to Azure Table Storage: '' @ exn_str e))
     else returns ()))"

text \<open>
  The connection-string adaptation of \<open>__init__\<close> (lines 41-64): boolean literals,
  credential keys, and the driver taken from \<open>pyodbc.drivers()\<close> when none is named.
\<close>

definition odbc_connection_string :: "env \<Rightarrow> string \<Rightarrow> string" where
  "odbc_connection_string env connection_string =
     (let cs = replace connection_string ''TrustServerCertificate=true'' ''TrustServerCertificate=yes'';
          cs = replace cs ''TrustServerCertificate=True'' ''TrustServerCertificate=yes'';
          cs = replace cs ''TrustServerCertificate=false'' ''TrustServerCertificate=no'';
          cs = replace cs ''TrustServerCertificate=False'' ''TrustServerCertificate=no'';
          cs = replace cs ''Encrypt=true'' ''Encrypt=yes'';
          cs = replace cs ''Encrypt=True'' ''Encrypt=yes'';
          cs = replace cs ''Encrypt=false'' ''Encrypt=no'';
          cs = replace cs ''Encrypt=False'' ''Encrypt=no'';
          cs = replace cs ''User ID='' ''UID='';
          cs = replace cs ''User Id='' ''UID='';
          cs = replace cs ''Password='' ''PWD=''
      in if \<not> contains cs ''Driver={'' then
           if ''ODBC Driver 17 for SQL Server'' \<in> set (drivers env)
           then cs @ '';Driver={ODBC Driver 17 for SQL Server};''
           else if ''ODBC Driver 18 for SQL Server'' \<in> set (drivers env)
           then cs @ '';Driver={ODBC Driver 18 for SQL Server};TrustServerCertificate=yes;''
           else if ''SQL Server'' \<in> set (drivers env)
           then cs @ '';Driver={SQL Server};''
           else cs
         else cs)"

text \<open>\<open>_get_job_id_from_instance\<close> (lines 84-100).\<close>

definition get_job_id_from_instance :: "env \<Rightarrow> logger \<Rightarrow> int prog" where
  "get_job_id_from_instance env self =
     (case self_connection self of
        None \<Rightarrow> returns 0
      | Some h \<Rightarrow>
          if self_job_instance_id self \<le> 0 then returns 0
          else
            try_except
              (then_do (connection_cursor env h) (\<lambda>_.
               then_do (cursor_query env h (SelectJobId (self_job_instance_id self))
                          (select_job_id (self_job_instance_id self))) (\<lambda>rows.
               then_do (cursor_fetchone env h rows) (\<lambda>row.
               returns (case row of Some jid \<Rightarrow> jid | None \<Rightarrow> 0)))))
              (\<lambda>e. then_do (print env (''Warning: Could not get job_id from instance: '' @ exn_str e)) (\<lambda>_.
                    returns 0)))"

text \<open>
  \<open>__init__\<close> (lines 30-82), in its two parts. The two descriptors are whatever the
  settings held under their keys, so any JSON value. The lookup of the job identifier
  sits inside the handler of line 69 as in the source; it raises nothing itself.
\<close>

definition connect_database :: "env \<Rightarrow> logger \<Rightarrow> logger prog" where
  "connect_database env self =
     (if has_pyodbc env \<and> truthy (self_connection_string self) then
        try_except
          (case self_connection_string self of
             JStr cs \<Rightarrow>
               then_do (pyodbc_connect env (odbc_connection_string env cs)) (\<lambda>h.
               then_do (get_job_id_from_instance env (self\<lparr>self_connection := Some h\<rparr>)) (\<lambda>jid.
               returns (self\<lparr>self_connection := Some h, self_job_id := jid\<rparr>)))
           | v \<Rightarrow> raises (no_attribute v ''replace''))
          (\<lambda>e. then_do (print env (''Warning: Could not connect to database: '' @ exn_str e)) (\<lambda>_.
                returns self))
      else returns self)"

definition connect_table :: "env \<Rightarrow> logger \<Rightarrow> logger prog" where
  "connect_table env self =
     (if \<not> has_azure_tables env then
        then_do (print env ''[ERROR!] azure-data-tables package is not installed. Cannot log to Azure Table Storage.'') (\<lambda>_.
        returns self)
      else if \<not> truthy (self_table_connection_string self) then
        then_do (print env ''[ERROR!] Table connection string is missing. Cannot log to Azure Table Storage.'') (\<lambda>_.
        returns self)
      else
        try_except
          (case self_table_connection_string self of
             JStr tcs \<Rightarrow>
               then_do (table_call env (FromConnectionString tcs)) (\<lambda>_.
               then_do (table_call env (CreateTable ''JobLogs'')) (\<lambda>_.
               returns (self\<lparr>self_table_client := True\<rparr>)))
           | v \<Rightarrow> raises (no_attribute v ''rstrip''))
          (\<lambda>e. then_do (print env (''[ERROR!] Could not connect to Azure Table Storage: '' @ exn_str e)) (\<lambda>_.
                returns self)))"

definition JobLogger_init :: "env \<Rightarrow> json \<Rightarrow> int \<Rightarrow> json \<Rightarrow> logger prog" where
  "JobLogger_init env connection_string job_instance_id table_connection_string =
     then_do
       (connect_database env
          \<lparr>self_connection_string = connection_string,
           self_job_instance_id = job_instance_id,
           self_table_connection_string = table_connection_string,
           self_connection = None, self_job_id = 0, self_table_client = False\<rparr>)
       (connect_table env)"

text \<open>\<open>log_error\<close> (lines 128-173), in three parts: console, relational store, table store.\<close>

definition error_message :: "string \<Rightarrow> string \<Rightarrow> string" where
  "error_message message stack_trace =
     (if stack_trace \<noteq> [] then message @ [CHR 0x0A] @ stack_trace else message)"

definition mark :: "event \<Rightarrow> unit prog" where
  "mark ev w = (Inr (), emit ev w)"

text \<open>The relational sink of \<open>log_error\<close> (lines 133-155).\<close>

definition log_error_database :: "env \<Rightarrow> logger \<Rightarrow> string \<Rightarrow> string \<Rightarrow> unit prog" where
  "log_error_database env self message stack_trace =
     (case self_connection self of
        None \<Rightarrow> returns ()
      | Some h \<Rightarrow>
          if self_job_instance_id self > 0 then
            try_except
              (then_do (connection_cursor env h) (\<lambda>_.
               then_do (cursor_execute env h (MarkInstanceError (self_job_instance_id self))) (\<lambda>_.
               then_do
                 (if self_job_id self > 0 then
                    then_do (datetime_utcnow env) (\<lambda>t.
                    then_do (uuid_uuid4 env) (\<lambda>u.
                    cursor_execute env h
                      (InsertError (self_job_id self)
                         (''Error_'' @ strftime t ''%Y%m%d%H%M%S'' @ ''_'' @ take 8 u)
                         (error_message message stack_trace))))
                  else returns ()) (\<lambda>_.
               connection_commit env h))))
              (\<lambda>e. print env (''Warning: Failed to log error to database: '' @ exn_str e))
          else returns ())"

text \<open>The table-store sink of \<open>log_error\<close> (lines 157-173).\<close>

definition log_error_table :: "env \<Rightarrow> logger \<Rightarrow> string \<Rightarrow> string \<Rightarrow> unit prog" where
  "log_error_table env self message stack_trace =
     (if self_table_client self \<and> self_job_id self > 0 then
        try_except
          (then_do (uuid_uuid4 env) (\<lambda>u.
           then_do (datetime_utcnow env) (\<lambda>t.
           create_entity env
             \<lparr>PartitionKey = get_partition_key self, RowKey = str_uuid u,
              Action = ''JobError'', Details = error_message message stack_trace,
              Level = ''Error'', Timestamp = t,
              JobId = self_job_id self, JobInstanceId = self_job_instance_id self\<rparr>)))
          (\<lambda>e. print env (''[ERROR!] Failed to log error to Azure Table Storage: '' @ exn_str e))
      else returns ())"

definition log_error :: "env \<Rightarrow> logger \<Rightarrow> string \<Rightarrow> string \<Rightarrow> unit prog" where
  "log_error env self message stack_trace =
     then_do (mark (LogErrorCalled message stack_trace)) (\<lambda>_.
     then_do (datetime_utcnow env) (\<lambda>timestamp.
     then_do (print env (''['' @ strftime timestamp ''%Y-%m-%d %H:%M:%S'' @ ''] [ERROR] '' @ message)) (\<lambda>_.
     then_do (log_error_database env self message stack_trace) (\<lambda>_.
     log_error_table env self message stack_trace))))"

text \<open>\<open>close\<close> (lines 175-178). The logger keeps its handle.\<close>

definition close :: "logger \<Rightarrow> unit prog" where
  "close self =
     (case self_connection self of
        None \<Rightarrow> returns ()
      | Some h \<Rightarrow> connection_close h)"


section \<open>execute_job\<close>

text \<open>
  The settings (lines 193-203). \<open>app_settings\<close> is \<open>None\<close> when the caller passed none.
  Only \<open>JSONDecodeError\<close> is handled; both descriptors then keep their empty default.
  Any other failure of the parser, and the \<open>AttributeError\<close> of \<open>get\<close> on a value that
  is no dict, leaves \<open>execute_job\<close>.
\<close>

definition parse_settings :: "env \<Rightarrow> string option \<Rightarrow> (json \<times> json) prog" where
  "parse_settings env app_settings =
     try_except
       (then_do
          (case app_settings of
             None \<Rightarrow> returns (JDict [])
           | Some s \<Rightarrow>
               if s = [] then returns (JDict [])
               else lift (json_loads env s)) (\<lambda>settings.
        then_do (lift (dict_get settings ''ConnectionStrings'' (JDict []))) (\<lambda>connection_strings.
        then_do (lift (dict_get connection_strings ''blazororchestratordb'' (JStr []))) (\<lambda>connection_string.
        then_do (lift (dict_get connection_strings ''tables'' (JStr []))) (\<lambda>table_connection_string.
        returns (connection_string, table_connection_string))))))
       (\<lambda>e. case e of
               JSONDecodeError m \<Rightarrow> returns (JStr [], JStr [])
             | _ \<Rightarrow> raises e)"

text \<open>
  The steps of the \<open>try\<close> block (lines 212-287), each taking and returning the list
  \<open>logs\<close>. \<open>step env k\<close> is where step \<open>k\<close> raises the failure the environment
  schedules for it.
\<close>

definition step :: "env \<Rightarrow> nat \<Rightarrow> unit prog" where
  "step env k = (case step_fault env k of Some e \<Rightarrow> raises e | None \<Rightarrow> returns ())"

definition step_started :: "env \<Rightarrow> logger \<Rightarrow> string list \<Rightarrow> string list prog" where
  "step_started env logger logs =
     then_do (step env 0) (\<lambda>_.
     then_do (log_progress env logger ''Job started'' ''Info'') (\<lambda>_.
     returns (logs @ [''Job started''])))"

definition exec_info :: "int \<Rightarrow> int \<Rightarrow> int \<Rightarrow> int \<Rightarrow> string" where
  "exec_info job_agent_id job_id job_instance_id job_schedule_id =
     ''Executing Job ID: '' @ str_int job_id @ '', Instance: '' @ str_int job_instance_id
       @ '', Schedule: '' @ str_int job_schedule_id @ '', Agent: '' @ str_int job_agent_id"

definition partition_key_info :: "int \<Rightarrow> int \<Rightarrow> string" where
  "partition_key_info job_id job_instance_id =
     ''Log partition key: '' @ str_int job_id @ ''-'' @ str_int job_instance_id"

definition step_announce :: "env \<Rightarrow> logger \<Rightarrow> int \<Rightarrow> int \<Rightarrow> int \<Rightarrow> int \<Rightarrow> string list \<Rightarrow> string list prog" where
  "step_announce env logger job_agent_id job_id job_instance_id job_schedule_id logs =
     then_do (step env 1) (\<lambda>_.
     then_do (print env (exec_info job_agent_id job_id job_instance_id job_schedule_id)) (\<lambda>_.
     then_do (log_progress env logger (exec_info job_agent_id job_id job_instance_id job_schedule_id) ''Info'') (\<lambda>_.
     then_do (step env 2) (\<lambda>_.
     then_do (print env (partition_key_info job_id job_instance_id)) (\<lambda>_.
     then_do (log_progress env logger (partition_key_info job_id job_instance_id) ''Info'') (\<lambda>_.
     returns (logs @ [exec_info job_agent_id job_id job_instance_id job_schedule_id,
                      partition_key_info job_id job_instance_id])))))))"

text \<open>The previous run time (lines 225-246).\<close>

definition formatted_time :: "datetime \<Rightarrow> string" where
  "formatted_time local_time =
     strftime local_time ''%m/%d/%Y %I:%M'' @ lower (strftime local_time ''%p'')"

definition prev_run_msg :: "datetime \<Rightarrow> string" where
  "prev_run_msg local_time = ''Previous time the job was run: '' @ formatted_time local_time"

definition step_previous_run :: "env \<Rightarrow> logger \<Rightarrow> int \<Rightarrow> string list \<Rightarrow> string list prog" where
  "step_previous_run env logger job_id logs =
     then_do (step env 3) (\<lambda>_.
     case self_connection logger of
       None \<Rightarrow> returns logs
     | Some h \<Rightarrow>
         if job_id > 0 then
           try_except
             (then_do (connection_cursor env h) (\<lambda>_.
              then_do (cursor_query env h (SelectLastRun job_id) (select_last_run job_id)) (\<lambda>rows.
              then_do (cursor_fetchone env h rows) (\<lambda>row.
              case row of
                Some (Some prev_run_time) \<Rightarrow>
                  then_do (datetime_now env) (\<lambda>local_now.
                  then_do (datetime_utcnow env) (\<lambda>utc_now.
                  then_do (lift (datetime_add prev_run_time (datetime_sub local_now utc_now))) (\<lambda>local_time.
                  then_do (print env (prev_run_msg local_time)) (\<lambda>_.
                  then_do (log_progress env logger (prev_run_msg local_time) ''Info'') (\<lambda>_.
                  returns (logs @ [prev_run_msg local_time]))))))
              | _ \<Rightarrow> returns logs))))
             (\<lambda>e. then_do (print env (''Warning: Failed to read Last Job Run Time: '' @ exn_str e)) (\<lambda>_.
                   returns logs))
         else returns logs)"

text \<open>The weather (lines 248-284). The degree sign is its two UTF-8 bytes.\<close>

definition fmt :: "env \<Rightarrow> json \<Rightarrow> string" where
  "fmt env v = (case v of JStr t \<Rightarrow> t | _ \<Rightarrow> py_str env v)"

definition degree :: string where
  "degree = [CHR 0xC2, CHR 0xB0]"

definition weather_info :: "env \<Rightarrow> json \<Rightarrow> json \<Rightarrow> json \<Rightarrow> json \<Rightarrow> string" where
  "weather_info env temp_f temp_c humidity weather_desc =
     ''Los Angeles, CA - Temperature: '' @ fmt env temp_f @ degree @ ''F ('' @ fmt env temp_c
       @ degree @ ''C), Humidity: '' @ fmt env humidity @ ''%, Conditions: '' @ fmt env weather_desc"

definition fetch_weather :: "env \<Rightarrow> string prog" where
  "fetch_weather env =
     then_do (lift (urlopen env)) (\<lambda>body.
     then_do (lift (json_loads env body)) (\<lambda>weather_data.
     then_do (lift (getitem_key weather_data ''current_condition'')) (\<lambda>conditions.
     then_do (lift (getitem_first conditions)) (\<lambda>current_condition.
     then_do (lift (getitem_key current_condition ''temp_C'')) (\<lambda>temp_c.
     then_do (lift (getitem_key current_condition ''temp_F'')) (\<lambda>temp_f.
     then_do (lift (getitem_key current_condition ''humidity'')) (\<lambda>humidity.
     then_do (lift (getitem_key current_condition ''weatherDesc'')) (\<lambda>descs.
     then_do (lift (getitem_first descs)) (\<lambda>desc.
     then_do (lift (getitem_key desc ''value'')) (\<lambda>weather_desc.
     returns (weather_info env temp_f temp_c humidity weather_desc)))))))))))"

definition step_weather :: "env \<Rightarrow> logger \<Rightarrow> string list \<Rightarrow> string list prog" where
  "step_weather env logger logs =
     then_do (step env 4) (\<lambda>_.
     then_do (log_progress env logger ''Fetching weather data for Los Angeles, CA'' ''Info'') (\<lambda>_.
     let logs = logs @ [''Fetching weather data for Los Angeles, CA''] in
     then_do (step env 5) (\<lambda>_.
     try_except
       (then_do (fetch_weather env) (\<lambda>info.
        then_do (print env info) (\<lambda>_.
        then_do (log_progress env logger info ''Info'') (\<lambda>_.
        returns (logs @ [info])))))
       (\<lambda>e. case e of
               URLError reason \<Rightarrow>
                 then_do (print env (''Failed to fetch weather data: '' @ reason)) (\<lambda>_.
                 then_do (log_progress env logger (''Failed to fetch weather data: '' @ reason) ''Warning'') (\<lambda>_.
                 returns (logs @ [''Failed to fetch weather data: '' @ reason])))
             | _ \<Rightarrow>
                 then_do (print env (''Error processing weather data: '' @ exn_str e)) (\<lambda>_.
                 then_do (log_progress env logger (''Error processing weather data: '' @ exn_str e) ''Warning'') (\<lambda>_.
                 returns (logs @ [''Error processing weather data: '' @ exn_str e])))))))"

definition step_completed :: "env \<Rightarrow> logger \<Rightarrow> string list \<Rightarrow> string list prog" where
  "step_completed env logger logs =
     then_do (step env 6) (\<lambda>_.
     then_do (log_progress env logger ''Job completed successfully!'' ''Info'') (\<lambda>_.
     returns (logs @ [''Job completed successfully!''])))"

definition running :: "env \<Rightarrow> logger \<Rightarrow> int \<Rightarrow> int \<Rightarrow> int \<Rightarrow> int \<Rightarrow> string list prog" where
  "running env logger job_agent_id job_id job_instance_id job_schedule_id =
     then_do (step_started env logger []) (\<lambda>logs.
     then_do (step_announce env logger job_agent_id job_id job_instance_id job_schedule_id logs) (\<lambda>logs.
     then_do (step_previous_run env logger job_id logs) (\<lambda>logs.
     then_do (step_weather env logger logs) (\<lambda>logs.
     step_completed env logger logs))))"

text \<open>The handler of lines 289-295: record the failure, then raise it again.\<close>

definition failed :: "env \<Rightarrow> logger \<Rightarrow> exn \<Rightarrow> string list prog" where
  "failed env logger e =
     then_do (log_error env logger (''Job execution error: '' @ exn_str e) (format_exc env e)) (\<lambda>_.
     raises e)"

text \<open>The \<open>finally\<close> block: the last run time (lines 297-322), then \<open>close\<close> (line 324).\<close>

definition update_last_run_time :: "env \<Rightarrow> logger \<Rightarrow> int \<Rightarrow> unit prog" where
  "update_last_run_time env logger job_id =
     (case self_connection logger of
        None \<Rightarrow> returns ()
      | Some h \<Rightarrow>
          if job_id > 0 then
            try_except
              (then_do (connection_cursor env h) (\<lambda>_.
               then_do (cursor_query env h (SelectLastRunId job_id) (select_last_run_id job_id)) (\<lambda>rows.
               then_do (cursor_fetchone env h rows) (\<lambda>row.
               then_do (datetime_utcnow env) (\<lambda>current_time.
               then_do
                 (case row of
                    Some row_id \<Rightarrow> cursor_execute env h (UpdateLastRun current_time row_id)
                  | None \<Rightarrow> cursor_execute env h (InsertLastRun job_id current_time)) (\<lambda>_.
               connection_commit env h))))))
              (\<lambda>e. print env (''Warning: Failed to update Last Job Run Time: '' @ exn_str e))
          else returns ())"

definition finalization :: "env \<Rightarrow> logger \<Rightarrow> int \<Rightarrow> unit prog" where
  "finalization env logger job_id =
     then_do (update_last_run_time env logger job_id) (\<lambda>_. close logger)"

text \<open>\<open>execute_job\<close> (lines 181-326).\<close>

definition adopt_job_id :: "logger \<Rightarrow> int \<Rightarrow> int" where
  "adopt_job_id logger job_id =
     (if job_id \<le> 0 \<and> self_job_id logger > 0 then self_job_id logger else job_id)"

definition execute_job :: "env \<Rightarrow> string option \<Rightarrow> int \<Rightarrow> int \<Rightarrow> int \<Rightarrow> int \<Rightarrow> string list prog" where
  "execute_job env app_settings job_agent_id job_id job_instance_id job_schedule_id =
     then_do (parse_settings env app_settings) (\<lambda>(connection_string, table_connection_string).
     then_do (JobLogger_init env connection_string job_instance_id table_connection_string) (\<lambda>logger.
     try_finally
       (try_except
          (running env logger job_agent_id (adopt_job_id logger job_id) job_instance_id job_schedule_id)
          (failed env logger))
       (finalization env logger (adopt_job_id logger job_id))))"

section \<open>Reasoning about runs\<close>

text \<open>
  \<open>ext P w w'\<close>: the world \<open>w'\<close> comes after \<open>w\<close>; the calls made in between all satisfy
  \<open>P\<close>, and unless one of them closed a connection every connection open in \<open>w\<close> is
  still open. \<open>within P m\<close>: every run of \<open>m\<close> is such an extension. \<open>total m\<close>: \<open>m\<close>
  always returns.
\<close>

definition ext :: "(event \<Rightarrow> bool) \<Rightarrow> world \<Rightarrow> world \<Rightarrow> bool" where
  "ext P w w' \<longleftrightarrow>
     (\<exists>evs. trace w' = trace w @ evs \<and> list_all P evs \<and>
        (Db Close True \<notin> set evs \<longrightarrow> (\<forall>h. sessions w h \<noteq> None \<longrightarrow> sessions w' h \<noteq> None)))"

definition within :: "(event \<Rightarrow> bool) \<Rightarrow> 'a prog \<Rightarrow> bool" where
  "within P m \<longleftrightarrow> (\<forall>w. ext P w (snd (m w)))"

definition total :: "'a prog \<Rightarrow> bool" where
  "total m \<longleftrightarrow> (\<forall>w. \<exists>x w'. m w = (Inr x, w'))"

text \<open>
  The calls a constructed logger and the steps of the job make (\<open>job_event\<close>): console
  lines, statements on the open connection, and entities carrying the logger's own
  identifiers, written only when its table sink is enabled. The calls of the
  constructor (\<open>setup_event\<close>) write no entity.
\<close>

fun job_event :: "logger \<Rightarrow> event \<Rightarrow> bool" where
  "job_event lg (Printed s) = True"
| "job_event lg (Db c ok) = (case c of Connect cs \<Rightarrow> False | Close \<Rightarrow> False | _ \<Rightarrow> True)"
| "job_event lg (Tbl c ok) =
     (case c of
        CreateEntity ent \<Rightarrow>
          self_table_client lg \<and> 0 < self_job_id lg \<and> PartitionKey ent = get_partition_key lg \<and>
          JobId ent = self_job_id lg \<and> JobInstanceId ent = self_job_instance_id lg
      | _ \<Rightarrow> False)"
| "job_event lg (LogErrorCalled m st) = False"

fun setup_event :: "event \<Rightarrow> bool" where
  "setup_event (Printed s) = True"
| "setup_event (Db c ok) = (c \<noteq> Close)"
| "setup_event (Tbl c ok) = (case c of CreateEntity ent \<Rightarrow> False | _ \<Rightarrow> True)"
| "setup_event (LogErrorCalled m st) = False"

fun is_log_error :: "event \<Rightarrow> bool" where
  "is_log_error (LogErrorCalled m st) = True"
| "is_log_error ev = False"

text \<open>The calls of a whole run after construction: those of the job, the entry into \<open>log_error\<close>, the final close.\<close>

definition run_event :: "logger \<Rightarrow> event \<Rightarrow> bool" where
  "run_event lg ev \<longleftrightarrow> job_event lg ev \<or> is_log_error ev \<or> ev = Db Close True \<or> ev = Db Close False"

text \<open>
  \<open>console_ok env\<close>: the console takes every line.
\<close>

definition console_ok :: "env \<Rightarrow> bool" where
  "console_ok env \<longleftrightarrow> (\<forall>s. console_fault env s = None)"

text \<open>
  \<open>raises_only E m\<close>: every exception that leaves \<open>m\<close> satisfies \<open>E\<close>.
\<close>

definition raises_only :: "(exn \<Rightarrow> bool) \<Rightarrow> 'a prog \<Rightarrow> bool" where
  "raises_only E m \<longleftrightarrow> (\<forall>w e w'. m w = (Inl e, w') \<longrightarrow> E e)"

text \<open>
  One attempt on the relational sink, as \<open>log_error\<close> makes it. \<open>error_calls\<close> are the
  driver calls of lines 135-153 in their order: the cursor, the \<open>UPDATE\<close> of the
  instance, the \<open>INSERT\<close> of the error row under the descriptor \<open>field_desc\<close> when the
  job identifier is positive, the commit. \<open>db_attempt calls evs\<close>: the events \<open>evs\<close>
  are these calls, each returning, up to the last one or up to the first one that
  raises, which is followed by the console line of the handler and nothing else.
\<close>

definition error_calls :: "logger \<Rightarrow> string \<Rightarrow> string \<Rightarrow> string \<Rightarrow> db_call list" where
  "error_calls self field_desc message stack_trace =
     [Cursor, Execute (MarkInstanceError (self_job_instance_id self))]
     @ (if 0 < self_job_id self
        then [Execute (InsertError (self_job_id self) field_desc (error_message message stack_trace))]
        else [])
     @ [Commit]"

fun db_attempt :: "db_call list \<Rightarrow> event list \<Rightarrow> bool" where
  "db_attempt [] evs = (evs = [])"
| "db_attempt (c # cs) [] = False"
| "db_attempt (c # cs) (ev # evs) =
     (ev = Db c True \<and> db_attempt cs evs \<or>
      ev = Db c False \<and>
        (case evs of
           [Printed s] \<Rightarrow> prefix ''Warning: Failed to log error to database: '' s
         | _ \<Rightarrow> False))"

text \<open>
  \<open>yields Q m\<close>: whatever \<open>m\<close> returns satisfies \<open>Q\<close>. \<open>connected lg w\<close>: the connection
  the logger holds, if any, is open in \<open>w\<close>. \<open>weather_failure e\<close> is the message the two
  handlers of the weather step build from the failure \<open>e\<close>.
\<close>

definition yields :: "('a \<Rightarrow> bool) \<Rightarrow> 'a prog \<Rightarrow> bool" where
  "yields Q m \<longleftrightarrow> (\<forall>w x w'. m w = (Inr x, w') \<longrightarrow> Q x)"

definition connected :: "logger \<Rightarrow> world \<Rightarrow> bool" where
  "connected lg w \<longleftrightarrow> (\<forall>h. self_connection lg = Some h \<longrightarrow> sessions w h \<noteq> None)"



text \<open>\<open>run_records_unique d\<close>: in \<open>d\<close> no job has two rows under the descriptor \<open>Last Job Run Time\<close>.\<close>

definition run_records_unique :: "database \<Rightarrow> bool" where
  "run_records_unique d \<longleftrightarrow> (\<forall>jid. length (filter (is_last_run jid) (JobData d)) \<le> 1)"

section \<open>A concrete deployment\<close>

text \<open>
  Both stores reachable, job instance 12 of schedule 3 of job 5, the weather service
  timing out.
\<close>

definition example_time :: datetime where
  "example_time = \<lparr>year = 2024, month = 3, day = 9, hour = 13, minute = 5, second = 7, microsecond = 0\<rparr>"

definition example_local_time :: datetime where
  "example_local_time = \<lparr>year = 2024, month = 3, day = 9, hour = 6, minute = 5, second = 7, microsecond = 0\<rparr>"

definition example_settings :: json where
  "example_settings =
     JDict [(''ConnectionStrings'',
             JDict [(''blazororchestratordb'', JStr ''Server=db;Encrypt=true''),
                    (''tables'', JStr ''UseDevelopmentStorage=true'')])]"

text \<open>
  The parser on the texts used below: the settings of the deployment (abbreviated to
  \<open>settings\<close>), the JSON texts \<open>[]\<close> and \<open>{}\<close>, and everything else rejected as no JSON.
\<close>

definition example_loads :: "string \<Rightarrow> exn + json" where
  "example_loads s =
     (if s = ''settings'' then Inr example_settings
      else if s = ''[]'' then Inr (JList [])
      else if s = ''{}'' then Inr (JDict [])
      else Inl (JSONDecodeError ''Expecting value''))"

definition example_env :: env where
  "example_env =
     \<lparr>has_pyodbc = True, has_azure_tables = True, drivers = [''SQL Server''],
      json_loads = example_loads, py_str = type_name,
      utcnow = (\<lambda>n. example_time), now = (\<lambda>n. example_local_time),
      uuid4 = (\<lambda>n. ''0123456789abcdef0123456789abcdef''),
      db_fault = (\<lambda>n. None), table_fault = (\<lambda>n. None),
      urlopen = Inl (URLError ''timed out''),
      format_exc = (\<lambda>e. ''Traceback (most recent call last)''),
      step_fault = (\<lambda>k. None), console_fault = (\<lambda>s. None)\<rparr>"

definition example_database :: database where
  "example_database =
     \<lparr>JobInstance = [(12, 3)], JobSchedule = [(3, 5)], JobInstances = [], JobData = []\<rparr>"

definition example_world :: world where
  "example_world =
     \<lparr>tick = 0, trace = [], stored = example_database, sessions = Map.empty, next_handle = 0\<rparr>"

text \<open>The logger its constructor builds there, and the world with its connection open.\<close>

definition example_logger :: logger where
  "example_logger =
     \<lparr>self_connection_string = JStr ''Server=db;Encrypt=true'', self_job_instance_id = 12,
      self_table_connection_string = JStr ''UseDevelopmentStorage=true'',
      self_connection = Some 0, self_job_id = 5, self_table_client = True\<rparr>"

definition example_open_world :: world where
  "example_open_world =
     \<lparr>tick = 6, trace = [], stored = example_database,
      sessions = [0 \<mapsto> example_database], next_handle = 1\<rparr>"


definition example_offline_env :: env where
  "example_offline_env = example_env\<lparr>has_pyodbc := False\<rparr>"

text \<open>
  The same deployment on a console whose encoding is ASCII: a line with a character
  outside ASCII cannot be written.
\<close>

definition ascii_console :: "string \<Rightarrow> exn option" where
  "ascii_console s =
     (if list_ex (\<lambda>c. 127 < (of_char c :: nat)) s
      then Some (UnicodeEncodeError ''ascii codec cannot encode character'')
      else None)"

definition example_ascii_env :: env where
  "example_ascii_env = example_env\<lparr>console_fault := ascii_console\<rparr>"

text \<open>The text \<open>caf\<close> followed by e with an acute accent, in UTF-8.\<close>

definition example_accented :: string where
  "example_accented = ''caf'' @ [CHR 0xC3, CHR 0xA9]"

text \<open>The same deployment with a parser that exceeds the recursion limit.\<close>

definition example_deep_env :: env where
  "example_deep_env =
     example_env\<lparr>json_loads := (\<lambda>s. Inl (RecursionError ''maximum recursion depth exceeded''))\<rparr>"

section \<open>Lemmas on runs\<close>

lemmas prog_defs = returns_def raises_def lift_def then_do_def try_except_def try_finally_def
  emit_def advance_def print_def datetime_utcnow_def datetime_now_def uuid_uuid4_def mark_def
  table_call_def create_entity_def

lemmas driver_defs = driver_call_def pyodbc_connect_def connection_cursor_def
  cursor_query_def cursor_execute_def cursor_fetchone_def connection_commit_def connection_close_def

lemma ext_refl: "ext P w w"
  by (simp add: ext_def)

lemma ext_trans: "ext P w w1 \<Longrightarrow> ext P w1 w2 \<Longrightarrow> ext P w w2"
  unfolding ext_def
  apply (elim exE conjE)
  subgoal for evs evs'
    by (rule exI [of _ "evs @ evs'"]) auto
  done

lemma ext_mono: "ext P w w' \<Longrightarrow> (\<And>ev. P ev \<Longrightarrow> Q ev) \<Longrightarrow> ext Q w w'"
  unfolding ext_def by (auto simp: list_all_iff)

lemma within_mono: "within P m \<Longrightarrow> (\<And>ev. P ev \<Longrightarrow> Q ev) \<Longrightarrow> within Q m"
  unfolding within_def by (blast intro: ext_mono)

lemma within_returns: "within P (returns x)"
  by (simp add: within_def returns_def ext_refl)

lemma within_raises: "within P (raises e)"
  by (simp add: within_def raises_def ext_refl)

lemma within_lift: "within P (lift r)"
  by (simp add: within_def lift_def ext_refl)

lemma within_then_do:
  assumes "within P m" and "\<And>x. within P (f x)"
  shows "within P (then_do m f)"
proof (unfold within_def, intro allI)
  fix w
  obtain r w1 where mw: "m w = (r, w1)"
    by (cases "m w")
  have e1: "ext P w w1"
    using assms(1) mw unfolding within_def by (metis snd_conv)
  show "ext P w (snd (then_do m f w))"
  proof (cases r)
    case (Inl e)
    then show ?thesis using mw e1 by (simp add: then_do_def)
  next
    case (Inr x)
    have "ext P w1 (snd (f x w1))"
      using assms(2) unfolding within_def by blast
    with e1 have "ext P w (snd (f x w1))"
      by (rule ext_trans)
    then show ?thesis using mw Inr by (simp add: then_do_def)
  qed
qed

lemma within_try_except:
  assumes "within P m" and "\<And>e. within P (h e)"
  shows "within P (try_except m h)"
proof (unfold within_def, intro allI)
  fix w
  obtain r w1 where mw: "m w = (r, w1)"
    by (cases "m w")
  have e1: "ext P w w1"
    using assms(1) mw unfolding within_def by (metis snd_conv)
  show "ext P w (snd (try_except m h w))"
  proof (cases r)
    case (Inr x)
    then show ?thesis using mw e1 by (simp add: try_except_def)
  next
    case (Inl e)
    have "ext P w1 (snd (h e w1))"
      using assms(2) unfolding within_def by blast
    with e1 have "ext P w (snd (h e w1))"
      by (rule ext_trans)
    then show ?thesis using mw Inl by (simp add: try_except_def)
  qed
qed

lemma within_try_finally:
  assumes "within P m" and "within P fin"
  shows "within P (try_finally m fin)"
proof (unfold within_def, intro allI)
  fix w
  obtain r w1 where mw: "m w = (r, w1)"
    by (cases "m w")
  obtain r' w2 where fw: "fin w1 = (r', w2)"
    by (cases "fin w1")
  have e1: "ext P w w1"
    using assms(1) mw unfolding within_def by (metis snd_conv)
  have e2: "ext P w1 w2"
    using assms(2) fw unfolding within_def by (metis snd_conv)
  have "ext P w w2"
    using e1 e2 by (rule ext_trans)
  then show "ext P w (snd (try_finally m fin w))"
    using mw fw by (cases r') (simp_all add: try_finally_def)
qed

lemma within_print: "P (Printed s) \<Longrightarrow> within P (print env s)"
  by (simp add: within_def ext_def print_def emit_def split: option.split)

lemma within_mark: "P ev \<Longrightarrow> ev \<noteq> Db Close True \<Longrightarrow> within P (mark ev)"
  by (simp add: within_def ext_def mark_def emit_def)

lemma within_clock:
  "within P (datetime_utcnow env)" "within P (datetime_now env)" "within P (uuid_uuid4 env)"
  by (simp_all add: within_def ext_def datetime_utcnow_def datetime_now_def uuid_uuid4_def advance_def)

lemma within_table_call: "P (Tbl c True) \<Longrightarrow> P (Tbl c False) \<Longrightarrow> within P (table_call env c)"
  by (simp add: within_def ext_def table_call_def emit_def advance_def split: option.split)

lemma within_driver_call:
  "P (Db c True) \<Longrightarrow> P (Db c False) \<Longrightarrow> c \<noteq> Close \<Longrightarrow> within P (driver_call env h c f)"
  by (auto simp: within_def ext_def driver_call_def emit_def advance_def split: option.split prod.split)

lemma within_connect:
  "P (Db (Connect cs) True) \<Longrightarrow> P (Db (Connect cs) False) \<Longrightarrow> within P (pyodbc_connect env cs)"
  by (auto simp: within_def ext_def pyodbc_connect_def emit_def advance_def split: option.split)

lemma within_commit:
  "P (Db Commit True) \<Longrightarrow> P (Db Commit False) \<Longrightarrow> within P (connection_commit env h)"
  by (auto simp: within_def ext_def connection_commit_def emit_def advance_def split: option.split)

lemma within_connection_close:
  "P (Db Close True) \<Longrightarrow> P (Db Close False) \<Longrightarrow> within P (connection_close h)"
  by (auto simp: within_def ext_def connection_close_def emit_def split: option.split)

lemma within_cursor_execute:
  "P (Db (Execute s) True) \<Longrightarrow> P (Db (Execute s) False) \<Longrightarrow> within P (cursor_execute env h s)"
  by (auto simp: within_def ext_def cursor_execute_def driver_call_def emit_def advance_def split: option.split prod.split)

lemmas within_rules = within_returns within_raises within_lift within_then_do within_try_except
  within_try_finally within_print within_clock within_table_call within_driver_call within_connect
  within_commit within_cursor_execute


lemma within_log_progress: "within (job_event lg) (log_progress env lg message level)"
  unfolding log_progress_def create_entity_def
  by (auto intro!: within_rules)

lemma within_get_job_id: "within setup_event (get_job_id_from_instance env lg)"
  unfolding get_job_id_from_instance_def connection_cursor_def cursor_query_def cursor_fetchone_def
  by (auto intro!: within_rules split: option.split)

lemma within_connect_database: "within setup_event (connect_database env lg)"
  unfolding connect_database_def
  by (auto intro!: within_rules within_get_job_id split: json.split)

lemma within_connect_table: "within setup_event (connect_table env lg)"
  unfolding connect_table_def
  by (auto intro!: within_rules split: json.split)

lemma within_init: "within setup_event (JobLogger_init env cs iid tcs)"
  unfolding JobLogger_init_def
  by (intro within_then_do within_connect_database within_connect_table)

lemma within_update: "within (job_event lg) (update_last_run_time env lg jid)"
  unfolding update_last_run_time_def connection_cursor_def cursor_query_def cursor_fetchone_def
  by (auto intro!: within_rules split: option.split)

lemma within_log_error_database: "within (job_event lg) (log_error_database env lg m st)"
  unfolding log_error_database_def connection_cursor_def
  by (auto intro!: within_rules split: option.split)

lemma within_log_error_table: "within (job_event lg) (log_error_table env lg m st)"
  unfolding log_error_table_def create_entity_def
  by (auto intro!: within_rules)

lemma within_step: "within P (step env k)"
  unfolding step_def by (auto intro!: within_rules split: option.split)

lemma within_step_started: "within (job_event lg) (step_started env lg logs)"
  unfolding step_started_def by (auto intro!: within_rules within_step within_log_progress)

lemma within_step_announce: "within (job_event lg) (step_announce env lg a j i s logs)"
  unfolding step_announce_def by (auto intro!: within_rules within_step within_log_progress)

lemma within_step_previous_run: "within (job_event lg) (step_previous_run env lg j logs)"
  unfolding step_previous_run_def connection_cursor_def cursor_query_def cursor_fetchone_def
  by (auto intro!: within_rules within_step within_log_progress split: option.split)

lemma within_fetch_weather: "within P (fetch_weather env)"
  unfolding fetch_weather_def by (auto intro!: within_rules split: option.split)

lemma within_step_weather: "within (job_event lg) (step_weather env lg logs)"
  unfolding step_weather_def Let_def
  by (auto intro!: within_rules within_step within_log_progress within_fetch_weather split: exn.split)

lemma within_step_completed: "within (job_event lg) (step_completed env lg logs)"
  unfolding step_completed_def by (auto intro!: within_rules within_step within_log_progress)

lemma within_running: "within (job_event lg) (running env lg a j i s)"
  unfolding running_def
  by (intro within_rules within_step_started within_step_announce within_step_previous_run
        within_step_weather within_step_completed)




lemma totalD: "total m \<Longrightarrow> \<exists>x w'. m w = (Inr x, w')"
  by (simp add: total_def)

lemma total_returns: "total (returns x)"
  by (simp add: total_def returns_def)

lemma total_then_do:
  assumes "total m" and "\<And>x. total (f x)"
  shows "total (then_do m f)"
proof (unfold total_def, intro allI)
  fix w
  obtain x w1 where "m w = (Inr x, w1)"
    using assms(1) totalD by blast
  moreover obtain y w2 where "f x w1 = (Inr y, w2)"
    using assms(2) totalD by blast
  ultimately show "\<exists>y w'. then_do m f w = (Inr y, w')"
    by (simp add: then_do_def)
qed

lemma total_try_except:
  assumes "\<And>e. total (h e)"
  shows "total (try_except m h)"
proof (unfold total_def, intro allI)
  fix w
  obtain r w1 where mw: "m w = (r, w1)"
    by (cases "m w")
  show "\<exists>y w'. try_except m h w = (Inr y, w')"
  proof (cases r)
    case (Inl e)
    obtain y w2 where "h e w1 = (Inr y, w2)"
      using assms totalD by blast
    then show ?thesis using mw Inl by (simp add: try_except_def)
  next
    case (Inr x)
    then show ?thesis using mw by (simp add: try_except_def)
  qed
qed

lemma total_prims:
  "total (mark ev)" "total (datetime_utcnow env)" "total (datetime_now env)"
  "total (uuid_uuid4 env)"
  by (simp_all add: total_def mark_def datetime_utcnow_def datetime_now_def uuid_uuid4_def)

lemma total_print: "console_ok env \<Longrightarrow> total (print env s)"
  by (simp add: total_def print_def console_ok_def)

lemmas total_rules = total_returns total_then_do total_try_except total_prims

lemma total_log_progress: "console_ok env \<Longrightarrow> total (log_progress env lg message level)"
  unfolding log_progress_def by (auto intro!: total_rules total_print)

lemma total_get_job_id: "console_ok env \<Longrightarrow> total (get_job_id_from_instance env lg)"
  unfolding get_job_id_from_instance_def by (auto intro!: total_rules total_print split: option.split)


lemma total_log_error_database: "console_ok env \<Longrightarrow> total (log_error_database env lg m st)"
  unfolding log_error_database_def by (auto intro!: total_rules total_print split: option.split)

lemma total_log_error_table: "console_ok env \<Longrightarrow> total (log_error_table env lg m st)"
  unfolding log_error_table_def by (auto intro!: total_rules total_print)

lemma total_log_error: "console_ok env \<Longrightarrow> total (log_error env lg m st)"
  unfolding log_error_def
  by (intro total_rules total_print total_log_error_database total_log_error_table)

lemma total_update: "console_ok env \<Longrightarrow> total (update_last_run_time env lg jid)"
  unfolding update_last_run_time_def by (auto intro!: total_rules total_print split: option.split)

lemma total_step: "step_fault env k = None \<Longrightarrow> total (step env k)"
  by (simp add: step_def total_returns)

lemma total_running:
  assumes "\<And>k. step_fault env k = None" and "console_ok env"
  shows "total (running env lg a j i s)"
  unfolding running_def step_started_def step_announce_def step_previous_run_def step_weather_def
    step_completed_def Let_def
  by (auto intro!: total_rules total_print total_step total_log_progress assms split: option.split exn.split)

lemma raises_onlyD: "raises_only E m \<Longrightarrow> m w = (Inl e, w') \<Longrightarrow> E e"
  by (auto simp: raises_only_def)

lemma raises_only_returns: "raises_only E (returns x)"
  by (simp add: raises_only_def returns_def)

lemma raises_only_then_do:
  assumes "raises_only E m" and "\<And>x. raises_only E (f x)"
  shows "raises_only E (then_do m f)"
  unfolding raises_only_def
proof (intro allI impI)
  fix w e w'
  assume run: "then_do m f w = (Inl e, w')"
  then consider "m w = (Inl e, w')" | x w1 where "m w = (Inr x, w1)" "f x w1 = (Inl e, w')"
    by (auto simp: then_do_def split: prod.splits sum.splits)
  then show "E e"
  proof cases
    case 1
    with assms(1) show ?thesis by (rule raises_onlyD)
  next
    case 2
    from assms(2) 2(2) show ?thesis by (rule raises_onlyD)
  qed
qed

lemma raises_only_try_except:
  assumes "\<And>e. raises_only E (h e)"
  shows "raises_only E (try_except m h)"
  unfolding raises_only_def
proof (intro allI impI)
  fix w e w'
  assume run: "try_except m h w = (Inl e, w')"
  then obtain e0 w1 where "h e0 w1 = (Inl e, w')"
    by (auto simp: try_except_def split: prod.splits sum.splits)
  with assms show "E e" by (rule raises_onlyD)
qed

lemma raises_only_prims:
  "raises_only E (mark ev)" "raises_only E (datetime_utcnow env)" "raises_only E (datetime_now env)"
  "raises_only E (uuid_uuid4 env)"
  by (simp_all add: raises_only_def mark_def datetime_utcnow_def datetime_now_def uuid_uuid4_def)

lemma raises_only_print: "raises_only (\<lambda>e. \<exists>s. console_fault env s = Some e) (print env s)"
  by (auto simp: raises_only_def print_def split: option.splits)

lemmas raises_only_rules = raises_only_returns raises_only_then_do raises_only_try_except
  raises_only_prims raises_only_print

lemma raises_only_log_progress:
  "raises_only (\<lambda>e. \<exists>s. console_fault env s = Some e) (log_progress env lg message level)"
  unfolding log_progress_def by (auto intro!: raises_only_rules)

lemma raises_only_log_error:
  "raises_only (\<lambda>e. \<exists>s. console_fault env s = Some e) (log_error env lg m st)"
  unfolding log_error_def log_error_database_def log_error_table_def
  by (auto intro!: raises_only_rules split: option.split)

lemma log_error_database_run:
  assumes "console_ok env"
  shows "\<exists>w' rel t u. log_error_database env lg m st w = (Inr (), w') \<and> trace w' = trace w @ rel \<and>
     (if self_connection lg \<noteq> None \<and> 0 < self_job_instance_id lg
      then db_attempt
             (error_calls lg (''Error_'' @ strftime t ''%Y%m%d%H%M%S'' @ ''_'' @ take 8 u) m st) rel
      else rel = [])"
  using assms
  by (auto simp: log_error_database_def error_calls_def console_ok_def prog_defs driver_defs
        closed_connection_def
      split: option.splits)

lemma log_error_table_run:
  assumes "console_ok env"
  shows "\<exists>w' tbl. log_error_table env lg m st w = (Inr (), w') \<and> trace w' = trace w @ tbl \<and>
     (if self_table_client lg \<and> 0 < self_job_id lg
      then \<exists>ent. Action ent = ''JobError'' \<and> Level ent = ''Error'' \<and>
             Details ent = error_message m st \<and> PartitionKey ent = get_partition_key lg \<and>
             (tbl = [Tbl (CreateEntity ent) True] \<or>
              (\<exists>t. tbl = [Tbl (CreateEntity ent) False,
                          Printed (''[ERROR!] Failed to log error to Azure Table Storage: '' @ t)]))
      else tbl = [])"
  using assms
  by (auto simp: log_error_table_def console_ok_def prog_defs split: option.splits)

lemma parse_settings_pure: "parse_settings env app w = (r, w') \<Longrightarrow> w' = w"
  unfolding parse_settings_def try_except_def then_do_def lift_def returns_def raises_def
  by (auto split: option.splits if_splits sum.splits prod.splits exn.splits)

lemma written_append: "written (xs @ ys) = written xs @ written ys"
  by (induction xs rule: written.induct) simp_all

lemma written_mem: "ent \<in> set (written evs) \<Longrightarrow> Tbl (CreateEntity ent) True \<in> set evs"
  by (induction evs rule: written.induct) auto

lemma written_none: "list_all setup_event evs \<Longrightarrow> written evs = []"
  by (induction evs rule: written.induct) auto

lemma extD: "ext P w w' \<Longrightarrow> \<exists>evs. trace w' = trace w @ evs \<and> list_all P evs"
  by (auto simp: ext_def)

lemma ext_open:
  assumes "ext P w w'" and "\<not> P (Db Close True)" and "sessions w h \<noteq> None"
  shows "sessions w' h \<noteq> None"
  using assms unfolding ext_def by (auto simp: list_all_iff)

lemma withinD: "within P m \<Longrightarrow> m w = (r, w') \<Longrightarrow> ext P w w'"
  unfolding within_def by (metis snd_conv)

lemma connect_table_fields:
  assumes "connect_table env self w = (Inr lg, w')"
  shows "self_connection lg = self_connection self \<and> self_job_id lg = self_job_id self \<and>
         self_job_instance_id lg = self_job_instance_id self"
  using assms unfolding connect_table_def try_except_def then_do_def returns_def raises_def print_def
  by (auto split: if_splits prod.splits sum.splits json.splits option.splits)

lemma connect_database_fields:
  assumes "connect_database env self w = (Inr lg, w')"
  shows "self_job_instance_id lg = self_job_instance_id self"
    and "self_connection self = None \<Longrightarrow> self_job_id self = 0 \<Longrightarrow> self_connection lg = None \<Longrightarrow> self_job_id lg = 0"
  using assms unfolding connect_database_def try_except_def then_do_def returns_def raises_def print_def
  by (auto split: if_splits prod.splits sum.splits json.splits option.splits)

lemma connect_database_open:
  assumes run: "connect_database env self w = (Inr lg, w')"
      and none: "self_connection self = None"
      and some: "self_connection lg = Some h"
  shows "sessions w' h \<noteq> None"
proof -
  from run none some obtain cs w1 jid where
      c: "pyodbc_connect env cs w = (Inr h, w1)"
      and g: "get_job_id_from_instance env (self\<lparr>self_connection := Some h\<rparr>) w1 = (Inr jid, w')"
    unfolding connect_database_def try_except_def then_do_def returns_def raises_def print_def
    by (auto split: if_splits prod.splits sum.splits json.splits option.splits)
  have o: "sessions w1 h \<noteq> None"
    using c by (auto simp: pyodbc_connect_def emit_def advance_def split: option.splits)
  have e: "ext setup_event w1 w'"
    using within_get_job_id g by (rule withinD)
  show ?thesis
    by (rule ext_open [OF e _ o]) simp
qed

lemma init_fields:
  assumes "JobLogger_init env cs i tcs w = (Inr lg, w1)"
  shows "self_job_instance_id lg = i"
    and "self_connection lg = None \<Longrightarrow> self_job_id lg = 0"
    and "self_connection lg = Some h \<Longrightarrow> sessions w1 h \<noteq> None"
proof -
  let ?self = "\<lparr>self_connection_string = cs, self_job_instance_id = i,
           self_table_connection_string = tcs,
           self_connection = None, self_job_id = 0, self_table_client = False\<rparr>"
  from assms obtain lg0 w0 where
      d: "connect_database env ?self w = (Inr lg0, w0)" and t: "connect_table env lg0 w0 = (Inr lg, w1)"
    unfolding JobLogger_init_def then_do_def by (auto split: prod.splits sum.splits)
  note f = connect_table_fields [OF t]
  show "self_job_instance_id lg = i"
    using f connect_database_fields(1) [OF d] by simp
  show "self_connection lg = None \<Longrightarrow> self_job_id lg = 0"
    using f connect_database_fields(2) [OF d] by simp
  show "sessions w1 h \<noteq> None" if "self_connection lg = Some h"
  proof -
    have o: "sessions w0 h \<noteq> None"
      using connect_database_open [OF d] that f by simp
    have e: "ext setup_event w0 w1"
      using within_connect_table t by (rule withinD)
    show ?thesis
      by (rule ext_open [OF e _ o]) simp
  qed
qed


lemma within_log_error:
  "within (\<lambda>ev. job_event lg ev \<or> is_log_error ev) (log_error env lg m st)"
  unfolding log_error_def
  by (auto intro!: within_rules within_mark
        within_mono [OF within_log_error_database] within_mono [OF within_log_error_table])

lemma within_failed:
  "within (\<lambda>ev. job_event lg ev \<or> is_log_error ev) (failed env lg e)"
  unfolding failed_def by (intro within_rules within_log_error)

lemma within_close_logger: "within (run_event lg) (close lg)"
  unfolding close_def
  by (auto intro!: within_rules within_connection_close simp: run_event_def split: option.split)

lemma within_finalization: "within (run_event lg) (finalization env lg j)"
  unfolding finalization_def
  by (auto intro!: within_rules within_close_logger within_mono [OF within_update] simp: run_event_def)

lemma within_lifecycle:
  "within (run_event lg)
     (try_finally (try_except (running env lg a j i s) (failed env lg)) (finalization env lg j))"
  by (auto intro!: within_rules within_finalization within_mono [OF within_running]
        within_mono [OF within_failed] simp: run_event_def)

lemma execute_job_unfold:
  assumes "parse_settings env app w = (Inr (cs, tcs), w0)"
      and "JobLogger_init env cs i tcs w0 = (Inr lg, w1)"
  shows "execute_job env app a j i s w =
         try_finally (try_except (running env lg a (adopt_job_id lg j) i s) (failed env lg))
           (finalization env lg (adopt_job_id lg j)) w1"
  using assms by (simp add: execute_job_def then_do_def)

lemma written_run:
  assumes "list_all (run_event lg) evs" and "ent \<in> set (written evs)"
  shows "self_table_client lg \<and> 0 < self_job_id lg \<and> PartitionKey ent = get_partition_key lg \<and>
         JobId ent = self_job_id lg \<and> JobInstanceId ent = self_job_instance_id lg"
proof -
  have "Tbl (CreateEntity ent) True \<in> set evs"
    using assms(2) by (rule written_mem)
  with assms(1) have "run_event lg (Tbl (CreateEntity ent) True)"
    by (simp add: list_all_iff)
  then show ?thesis
    by (simp add: run_event_def)
qed

lemma execute_job_entities:
  assumes parse: "parse_settings env app w = (Inr (cs, tcs), w0)"
      and init: "JobLogger_init env cs i tcs w0 = (Inr lg, w1)"
      and run: "execute_job env app a j i s w = (r, w')"
  shows "\<exists>evs. written (trace w') = written (trace w) @ written evs \<and> list_all (run_event lg) evs"
proof -
  have w0: "w0 = w"
    using parse by (rule parse_settings_pure)
  have "ext setup_event w w1"
    using within_init init unfolding w0 by (rule withinD)
  then obtain evs0 where t0: "trace w1 = trace w @ evs0" "list_all setup_event evs0"
    using extD by blast
  have "ext (run_event lg) w1 w'"
    using within_lifecycle run unfolding execute_job_unfold [OF parse init] by (rule withinD)
  then obtain evs where t1: "trace w' = trace w1 @ evs" "list_all (run_event lg) evs"
    using extD by blast
  have "written (trace w') = written (trace w) @ written evs"
    using t0 t1 by (simp add: written_append written_none)
  with t1(2) show ?thesis by blast
qed

lemma yieldsD: "yields Q m \<Longrightarrow> m w = (Inr x, w') \<Longrightarrow> Q x"
  by (auto simp: yields_def)

lemma yields_returns: "Q x \<Longrightarrow> yields Q (returns x)"
  by (simp add: yields_def returns_def)

lemma yields_raises: "yields Q (raises e)"
  by (simp add: yields_def raises_def)

lemma yields_bind:
  assumes "yields P m" and "\<And>x. P x \<Longrightarrow> yields Q (f x)"
  shows "yields Q (then_do m f)"
  unfolding yields_def
proof (intro allI impI)
  fix w y w'
  assume run: "then_do m f w = (Inr y, w')"
  then obtain x w1 where m: "m w = (Inr x, w1)" and f: "f x w1 = (Inr y, w')"
    by (auto simp: then_do_def split: prod.splits sum.splits)
  have "P x" using assms(1) m by (rule yieldsD)
  then have "yields Q (f x)" by (rule assms(2))
  then show "Q y" using f by (rule yieldsD)
qed

lemma yields_then:
  assumes "\<And>x. yields Q (f x)"
  shows "yields Q (then_do m f)"
  by (rule yields_bind [where P = "\<lambda>x. True"]) (simp_all add: yields_def assms [unfolded yields_def])

lemma yields_try_except:
  assumes "yields Q m" and "\<And>e. yields Q (h e)"
  shows "yields Q (try_except m h)"
  unfolding yields_def
proof (intro allI impI)
  fix w y w'
  assume run: "try_except m h w = (Inr y, w')"
  then consider "m w = (Inr y, w')" | e w1 where "m w = (Inl e, w1)" "h e w1 = (Inr y, w')"
    by (auto simp: try_except_def split: prod.splits sum.splits)
  then show "Q y"
  proof cases
    case 1
    with assms(1) show ?thesis by (rule yieldsD)
  next
    case 2
    from assms(2) 2(2) show ?thesis by (rule yieldsD)
  qed
qed

lemma yields_try_finally:
  assumes "yields Q m"
  shows "yields Q (try_finally m fin)"
  unfolding yields_def
proof (intro allI impI)
  fix w y w'
  assume "try_finally m fin w = (Inr y, w')"
  then obtain w1 where "m w = (Inr y, w1)"
    by (auto simp: try_finally_def split: prod.splits sum.splits)
  with assms show "Q y" by (rule yieldsD)
qed

lemma yields_mono: "yields P m \<Longrightarrow> (\<And>x. P x \<Longrightarrow> Q x) \<Longrightarrow> yields Q m"
  by (auto simp: yields_def)

lemmas yields_rules = yields_returns yields_raises yields_then yields_try_except

lemma yields_step_started: "yields (\<lambda>l. l = logs @ [''Job started'']) (step_started env lg logs)"
  unfolding step_started_def by (intro yields_rules) simp

lemma yields_step_announce:
  "yields (\<lambda>l. l = logs @ [exec_info a j i s, partition_key_info j i]) (step_announce env lg a j i s logs)"
  unfolding step_announce_def by (intro yields_rules) simp

lemma yields_step_previous_run: "yields (\<lambda>l. prefix logs l) (step_previous_run env lg j logs)"
  unfolding step_previous_run_def
  by (auto intro!: yields_rules split: option.split)

lemma yields_step_weather:
  "yields (\<lambda>l. \<exists>x. l = logs @ [''Fetching weather data for Los Angeles, CA'', x]) (step_weather env lg logs)"
  unfolding step_weather_def Let_def
  by (auto intro!: yields_rules split: exn.split)

lemma yields_step_completed:
  "yields (\<lambda>l. l = logs @ [''Job completed successfully!'']) (step_completed env lg logs)"
  unfolding step_completed_def by (intro yields_rules) simp

lemma yields_running:
  "yields (\<lambda>l. \<exists>mid. l = [''Job started'', exec_info a j i s, partition_key_info j i] @ mid
                          @ [''Job completed successfully!''])
     (running env lg a j i s)"
  unfolding running_def
  apply (rule yields_bind [OF yields_step_started])
  apply (rule yields_bind [OF yields_step_announce])
  apply (rule yields_bind [OF yields_step_previous_run])
  apply (rule yields_bind [OF yields_step_weather])
  apply (rule yields_mono [OF yields_step_completed])
  apply (auto simp: prefix_def)
  done


lemma connected_ext:
  assumes "ext P w w'" and "\<not> P (Db Close True)" and "connected lg w"
  shows "connected lg w'"
  unfolding connected_def
proof (intro allI impI)
  fix h assume "self_connection lg = Some h"
  with assms(3) have "sessions w h \<noteq> None" by (simp add: connected_def)
  with assms(1,2) show "sessions w' h \<noteq> None" by (rule ext_open)
qed

lemma init_connected: "JobLogger_init env cs i tcs w = (Inr lg, w1) \<Longrightarrow> connected lg w1"
  unfolding connected_def by (auto dest: init_fields(3))

lemma close_returns:
  assumes "connected lg w"
  shows "\<exists>w'. close lg w = (Inr (), w') \<and> ext (run_event lg) w w' \<and>
           (\<forall>h. self_connection lg = Some h \<longrightarrow> sessions w' h = None \<and> trace w' = trace w @ [Db Close True])"
proof (cases "self_connection lg")
  case None
  then show ?thesis by (simp add: close_def returns_def ext_refl)
next
  case (Some h)
  with assms obtain d where d: "sessions w h = Some d"
    by (auto simp: connected_def)
  have "close lg w = (Inr (), emit (Db Close True) (w\<lparr>sessions := (sessions w)(h := None)\<rparr>))"
    using Some d by (simp add: close_def connection_close_def)
  moreover have "ext (run_event lg) w (snd (close lg w))"
    using within_close_logger by (simp add: within_def)
  ultimately show ?thesis
    using Some by (simp add: emit_def)
qed

lemma finalization_returns:
  assumes "connected lg w" and ok: "console_ok env"
  shows "\<exists>w1 w'. update_last_run_time env lg j w = (Inr (), w1) \<and> close lg w1 = (Inr (), w') \<and>
           finalization env lg j w = (Inr (), w') \<and> ext (job_event lg) w w1 \<and> ext (run_event lg) w w' \<and>
           (\<forall>h. self_connection lg = Some h \<longrightarrow> sessions w' h = None \<and> trace w' = trace w1 @ [Db Close True])"
proof -
  obtain w1 where u: "update_last_run_time env lg j w = (Inr (), w1)"
    using totalD [OF total_update [OF ok]] by (metis old.unit.exhaust)
  have e1: "ext (job_event lg) w w1"
    using within_update u by (rule withinD)
  have "connected lg w1"
    using e1 _ assms(1) by (rule connected_ext) simp
  then obtain w' where c: "close lg w1 = (Inr (), w')"
    and c': "\<forall>h. self_connection lg = Some h \<longrightarrow> sessions w' h = None \<and> trace w' = trace w1 @ [Db Close True]"
    using close_returns by blast
  have f: "finalization env lg j w = (Inr (), w')"
    using u c by (simp add: finalization_def then_do_def)
  have "ext (run_event lg) w w'"
    using within_finalization f by (rule withinD)
  with u c f e1 c' show ?thesis by blast
qed

lemma execute_job_returns:
  assumes parse: "parse_settings env app w = (Inr (cs, tcs), w0)"
      and init: "JobLogger_init env cs i tcs w0 = (Inr lg, w1)"
      and body: "running env lg a (adopt_job_id lg j) i s w1 = (Inr logs, w2)"
      and ok: "console_ok env"
  shows "\<exists>w'. execute_job env app a j i s w = (Inr logs, w') \<and> ext (run_event lg) w2 w'"
proof -
  have "ext (job_event lg) w1 w2"
    using within_running body by (rule withinD)
  then have "connected lg w2"
    using _ init_connected [OF init] by (rule connected_ext) simp
  then obtain w' where f: "finalization env lg (adopt_job_id lg j) w2 = (Inr (), w')"
      and e: "ext (run_event lg) w2 w'"
    using finalization_returns [OF _ ok] by blast
  have "execute_job env app a j i s w = (Inr logs, w')"
    unfolding execute_job_unfold [OF parse init] using body f
    by (simp add: try_finally_def try_except_def)
  with e show ?thesis by blast
qed






lemmas eval_defs = prog_defs driver_defs closed_connection_def
  parse_settings_def dict_get_def JobLogger_init_def connect_database_def connect_table_def
  odbc_connection_string_def get_job_id_from_instance_def select_job_id_def
  log_progress_def get_partition_key_def str_int_def str_nat.simps digit_def str_uuid_def
  directive_def zfill_def hour12_def
  log_error_def log_error_database_def log_error_table_def error_message_def close_def
  step_def step_started_def step_announce_def exec_info_def partition_key_info_def
  step_previous_run_def select_last_run_def is_last_run_def
  step_weather_def fetch_weather_def step_completed_def running_def failed_def
  update_last_run_time_def select_last_run_id_def fresh_id_def finalization_def
  adopt_job_id_def execute_job_def
  example_env_def example_loads_def example_settings_def example_time_def example_local_time_def
  example_database_def example_world_def example_logger_def example_open_world_def
  Let_def

lemma yields_failed: "yields Q (failed env lg e)"
  unfolding failed_def by (intro yields_rules)

lemma execute_job_logs:
  assumes parse: "parse_settings env app w = (Inr (cs, tcs), w0)"
      and init: "JobLogger_init env cs i tcs w0 = (Inr lg, w1)"
      and run: "execute_job env app a j i s w = (Inr logs, w')"
  shows "\<exists>mid. logs = [''Job started'', exec_info a (adopt_job_id lg j) i s,
                        partition_key_info (adopt_job_id lg j) i] @ mid
                      @ [''Job completed successfully!'']"
proof -
  have "yields (\<lambda>l. \<exists>mid. l = [''Job started'', exec_info a (adopt_job_id lg j) i s,
                        partition_key_info (adopt_job_id lg j) i] @ mid
                      @ [''Job completed successfully!''])
     (try_finally (try_except (running env lg a (adopt_job_id lg j) i s) (failed env lg))
           (finalization env lg (adopt_job_id lg j)))"
    by (intro yields_try_finally yields_try_except yields_running yields_failed)
  then show ?thesis
    using run unfolding execute_job_unfold [OF parse init] by (rule yieldsD)
qed

lemma run_event_no_entity:
  assumes "list_all (run_event lg) evs" and "self_job_id lg \<le> 0 \<or> \<not> self_table_client lg"
  shows "\<not> list_ex (\<lambda>ev. \<exists>ent ok. ev = Tbl (CreateEntity ent) ok) evs"
  using assms by (auto simp: list_all_iff list_ex_iff run_event_def)

lemma execute_job_trace:
  assumes parse: "parse_settings env app w = (Inr (cs, tcs), w0)"
      and init: "JobLogger_init env cs i tcs w0 = (Inr lg, w1)"
      and run: "execute_job env app a j i s w = (r, w')"
  shows "\<exists>evs0 evs. trace w' = trace w @ evs0 @ evs \<and> list_all setup_event evs0 \<and>
           list_all (run_event lg) evs"
proof -
  have w0: "w0 = w"
    using parse by (rule parse_settings_pure)
  have "ext setup_event w w1"
    using within_init init unfolding w0 by (rule withinD)
  then obtain evs0 where t0: "trace w1 = trace w @ evs0" "list_all setup_event evs0"
    using extD by blast
  have "ext (run_event lg) w1 w'"
    using within_lifecycle run unfolding execute_job_unfold [OF parse init] by (rule withinD)
  then obtain evs where t1: "trace w' = trace w1 @ evs" "list_all (run_event lg) evs"
    using extD by blast
  show ?thesis
    using t0 t1 by auto
qed














lemma parse_settings_empty:
  assumes "app = None \<or> app = Some [] \<or>
           (\<exists>s. app = Some s \<and> ((\<exists>m. json_loads env s = Inl (JSONDecodeError m)) \<or>
              (\<exists>kvs. json_loads env s = Inr (JDict kvs) \<and> map_of kvs ''ConnectionStrings'' = None)))"
  shows "parse_settings env app w = (Inr (JStr [], JStr []), w)"
  using assms
  by (auto simp: parse_settings_def try_except_def then_do_def returns_def raises_def lift_def dict_get_def)

lemma init_empty:
  assumes "console_ok env"
  shows "\<exists>lg w1. JobLogger_init env (JStr []) i (JStr []) w = (Inr lg, w1) \<and> self_connection lg = None \<and>
     \<not> self_table_client lg \<and> self_job_id lg = 0"
  using assms
  by (simp add: JobLogger_init_def connect_database_def connect_table_def then_do_def returns_def
        print_def console_ok_def)

lemma update_view:
  assumes "self_connection lg = Some h" and "0 < j" and "sessions w h = Some d"
      and "update_last_run_time env lg j w = (r, w')"
  shows "(sessions w' h = Some d \<or>
           (\<exists>row_id rest. select_last_run_id j d = row_id # rest \<and>
               sessions w' h = Some (apply_stmt (utcnow env (Suc (Suc (Suc (Suc (tick w))))))
                                      (UpdateLastRun (utcnow env (Suc (Suc (Suc (tick w))))) row_id) d)) \<or>
           (select_last_run_id j d = [] \<and>
               sessions w' h = Some (apply_stmt (utcnow env (Suc (Suc (Suc (Suc (tick w))))))
                                      (InsertLastRun j (utcnow env (Suc (Suc (Suc (tick w)))))) d))) \<and>
          (stored w' = stored w \<or> sessions w' h = Some (stored w'))"
  using assms
  unfolding update_last_run_time_def
  by (auto simp: prog_defs driver_defs split: option.splits list.splits if_splits)

lemma update_no_fault:
  assumes "self_connection lg = Some h" and "0 < j" and "sessions w h = Some d"
      and "\<forall>n. db_fault env n = None"
  shows "\<exists>w'. update_last_run_time env lg j w = (Inr (), w') \<and> tick w' = tick w + 6 \<and>
           sessions w' h = Some (stored w') \<and>
           stored w' = apply_stmt (utcnow env (tick w + 4))
              (case select_last_run_id j d of
                 [] \<Rightarrow> InsertLastRun j (utcnow env (tick w + 3))
               | row_id # rest \<Rightarrow> UpdateLastRun (utcnow env (tick w + 3)) row_id) d"
  using assms
  unfolding update_last_run_time_def
  by (auto simp: prog_defs driver_defs eval_nat_numeral split: list.splits)

lemma is_last_run_update [simp]:
  "is_last_run jid (r\<lparr>jd_JobDateValue := a, jd_UpdatedDate := b, jd_UpdatedBy := c\<rparr>) = is_last_run jid r"
  by (simp add: is_last_run_def)

lemma filter_update:
  "filter (is_last_run jid)
     (map (\<lambda>r. if jd_Id r = row_id then r\<lparr>jd_JobDateValue := a, jd_UpdatedDate := b, jd_UpdatedBy := c\<rparr> else r) rows)
   = map (\<lambda>r. if jd_Id r = row_id then r\<lparr>jd_JobDateValue := a, jd_UpdatedDate := b, jd_UpdatedBy := c\<rparr> else r)
       (filter (is_last_run jid) rows)"
  by (induction rows) auto

lemma unique_update:
  "run_records_unique d \<Longrightarrow> run_records_unique (apply_stmt srv (UpdateLastRun t row_id) d)"
  by (simp add: run_records_unique_def filter_update)

lemma unique_insert:
  assumes "select_last_run_id j d = []" and "run_records_unique d"
  shows "run_records_unique (apply_stmt srv (InsertLastRun j t) d)"
  unfolding run_records_unique_def
proof
  fix jid
  show "length (filter (is_last_run jid) (JobData (apply_stmt srv (InsertLastRun j t) d))) \<le> 1"
  proof (cases "jid = j")
    case True
    then show ?thesis using assms(1) by (simp add: select_last_run_id_def)
  next
    case False
    then show ?thesis using assms(2) by (simp add: run_records_unique_def is_last_run_def)
  qed
qed


lemma fold_max_ge: "(a::int) \<le> fold max xs a \<and> (\<forall>x \<in> set xs. x \<le> fold max xs a)"
proof (induction xs arbitrary: a)
  case Nil
  then show ?case by simp
next
  case (Cons y ys)
  from Cons [of "max y a"] show ?case by auto
qed

lemma fresh_id_new: "r \<in> set rows \<Longrightarrow> jd_Id r < fresh_id rows"
  using fold_max_ge [of 0 "map jd_Id rows"] by (auto simp: fresh_id_def)

lemma update_other_rows:
  "map (\<lambda>r. if jd_Id r = fresh_id rows then f r else r) rows = rows"
  by (rule map_idI) (auto dest: fresh_id_new)

lemma parse_settings_not_object:
  assumes "s \<noteq> []" and "json_loads env s = Inr v" and "\<forall>kvs. v \<noteq> JDict kvs"
  shows "parse_settings env (Some s) w = (Inl (no_attribute v ''get''), w)"
  using assms
  by (cases v)
     (simp_all add: parse_settings_def try_except_def then_do_def returns_def raises_def lift_def
        dict_get_def no_attribute_def)

lemma parse_settings_other_failure:
  assumes "s \<noteq> []" and "json_loads env s = Inl e" and "\<forall>m. e \<noteq> JSONDecodeError m"
  shows "parse_settings env (Some s) w = (Inl e, w)"
  using assms
  by (cases e)
     (simp_all add: parse_settings_def try_except_def then_do_def returns_def raises_def lift_def)

lemma execute_job_parse_failure:
  assumes "parse_settings env app w = (Inl e, w0)"
  shows "execute_job env app a j i s w = (Inl e, w0)"
  using assms by (simp add: execute_job_def then_do_def)

section \<open>The claims\<close>



text \<open>
  C7, as the code has it. \<open>log_progress\<close> first writes the console line, with the UTC
  timestamp in front, outside any handler: when the console does not take that line
  the failure of the write leaves \<open>log_progress\<close> and nothing else is done. Once the
  line is written: without a table sink, or with a job identifier that is not
  positive, it returns and calls the table store not at all; otherwise it makes one
  attempt to write an entity with action \<open>JobProgress\<close>, and a failure of that write
  is caught and reported by one more console line, which is again written inside
  the handler, so that \<open>log_progress\<close> raises exactly when the console does not take
  that line either. A failure of the table store itself never reaches the caller.
\<close>

theorem log_progress_raises_only_console_failures:
  "\<exists>r w' evs ent.
     log_progress env self message level w = (r, w') \<and> trace w' = trace w @ evs \<and>
     Action ent = ''JobProgress'' \<and> Details ent = message \<and> Level ent = level \<and>
     PartitionKey ent = get_partition_key self \<and>
     (case console_fault env (''['' @ strftime (utcnow env (tick w)) ''%Y-%m-%d %H:%M:%S''
                                @ ''] ['' @ level @ ''] '' @ message) of
        Some e \<Rightarrow> r = Inl e \<and> evs = []
      | None \<Rightarrow>
          (\<exists>rest. evs = Printed (''['' @ strftime (utcnow env (tick w)) ''%Y-%m-%d %H:%M:%S''
                                    @ ''] ['' @ level @ ''] '' @ message) # rest \<and>
             (if self_table_client self \<and> 0 < self_job_id self
              then (case table_fault env (tick w + 3) of
                      None \<Rightarrow> r = Inr () \<and> rest = [Tbl (CreateEntity ent) True]
                    | Some m \<Rightarrow>
                        (case console_fault env (''[ERROR!] Failed to log to Azure Table Storage: '' @ m) of
                           None \<Rightarrow> r = Inr () \<and>
                             rest = [Tbl (CreateEntity ent) False,
                                     Printed (''[ERROR!] Failed to log to Azure Table Storage: '' @ m)]
                         | Some e \<Rightarrow> r = Inl e \<and> rest = [Tbl (CreateEntity ent) False]))
              else r = Inr () \<and> rest = [])))"
proof -
  define ent where "ent = \<lparr>PartitionKey = get_partition_key self,
      RowKey = str_uuid (uuid4 env (Suc (tick w))),
      Action = ''JobProgress'', Details = message, Level = level,
      Timestamp = utcnow env (Suc (Suc (tick w))),
      JobId = self_job_id self, JobInstanceId = self_job_instance_id self\<rparr>"
  show ?thesis
    apply (rule exI [of _ "fst (log_progress env self message level w)"])
    apply (rule exI [of _ "snd (log_progress env self message level w)"])
    apply (rule exI [of _ "drop (length (trace w)) (trace (snd (log_progress env self message level w)))"])
    apply (rule exI [of _ ent])
    apply (simp add: ent_def log_progress_def prog_defs eval_nat_numeral split: option.split)
    done
qed

theorem log_progress_raises_only_console_failures_witness:
  "console_ok example_env \<and> self_table_client example_logger \<and> 0 < self_job_id example_logger \<and>
   table_fault example_env (tick example_open_world + 3) = None \<and>
   (\<exists>r w' evs ent.
      log_progress example_env example_logger ''Job started'' ''Info'' example_open_world = (r, w') \<and>
      trace w' = trace example_open_world @ evs \<and>
      Action ent = ''JobProgress'' \<and> Details ent = ''Job started'' \<and> Level ent = ''Info'' \<and>
      PartitionKey ent = get_partition_key example_logger \<and>
      (\<exists>rest. evs = Printed (''['' @ strftime (utcnow example_env (tick example_open_world)) ''%Y-%m-%d %H:%M:%S''
                                 @ ''] ['' @ ''Info'' @ ''] '' @ ''Job started'') # rest \<and>
         r = Inr () \<and> rest = [Tbl (CreateEntity ent) True]))"
proof -
  have ok: "console_ok example_env"
    by (simp add: console_ok_def example_env_def)
  have lg: "self_table_client example_logger \<and> 0 < self_job_id example_logger"
    by (simp add: example_logger_def)
  have tf: "table_fault example_env (tick example_open_world + 3) = None"
    by (simp add: example_env_def)
  from log_progress_raises_only_console_failures
    [of example_env example_logger "''Job started''" "''Info''" example_open_world]
  show ?thesis
    unfolding ok [unfolded console_ok_def, rule_format] tf option.case if_P [OF lg]
    using ok lg by blast
qed

text \<open>
  The claim as written fails: on a console that encodes ASCII only, \<open>log_progress\<close>
  raises \<open>UnicodeEncodeError\<close> for a message with an accented letter, before the table
  store is called.
\<close>

theorem log_progress_raises_counterexample:
  "log_progress example_ascii_env example_logger example_accented ''Info'' example_open_world
     = (Inl (UnicodeEncodeError ''ascii codec cannot encode character''), advance example_open_world)"
  by (simp add: eval_defs example_ascii_env_def ascii_console_def example_accented_def)

text \<open>
  C2, as the code has it. First: when the console does not take the first line of
  \<open>log_error\<close> (line 131, outside any handler), the failure of the write leaves
  \<open>log_error\<close> and neither store is attempted. Second: on a console that takes every
  line, \<open>log_error\<close> returns, and its calls are, in this order: the console line; on
  the relational sink (when a connection is held and the instance identifier is
  positive) the cursor, the \<open>UPDATE\<close> of the instance, the \<open>INSERT\<close> of the error row
  (when the job identifier is positive) and the commit, up to the first call that
  raises, which leaves one console line; on the table store (when the client is
  present and the job identifier is positive) one attempt to write the \<open>JobError\<close>
  entity, made whatever the relational sink did, whose failure leaves one console
  line. Third: whatever the stores and the console do, an exception that leaves
  \<open>log_error\<close> is one that a console write raised, never a failure of a store.
\<close>

theorem log_error_sinks_and_console:
  "(\<forall>e. console_fault env (''['' @ strftime (utcnow env (tick w)) ''%Y-%m-%d %H:%M:%S''
                               @ ''] [ERROR] '' @ message) = Some e \<longrightarrow>
      (\<exists>w'. log_error env self message stack_trace w = (Inl e, w') \<and>
            trace w' = trace w @ [LogErrorCalled message stack_trace])) \<and>
   (console_ok env \<longrightarrow>
      (\<exists>w' rel tbl t u. log_error env self message stack_trace w = (Inr (), w') \<and>
         trace w' = trace w @ [LogErrorCalled message stack_trace,
            Printed (''['' @ strftime (utcnow env (tick w)) ''%Y-%m-%d %H:%M:%S'' @ ''] [ERROR] '' @ message)]
            @ rel @ tbl \<and>
         (if self_connection self \<noteq> None \<and> 0 < self_job_instance_id self
          then db_attempt
                 (error_calls self (''Error_'' @ strftime t ''%Y%m%d%H%M%S'' @ ''_'' @ take 8 u)
                    message stack_trace) rel
          else rel = []) \<and>
         (if self_table_client self \<and> 0 < self_job_id self
          then \<exists>ent. Action ent = ''JobError'' \<and> Level ent = ''Error'' \<and>
                 Details ent = error_message message stack_trace \<and>
                 PartitionKey ent = get_partition_key self \<and>
                 (tbl = [Tbl (CreateEntity ent) True] \<or>
                  (\<exists>m. tbl = [Tbl (CreateEntity ent) False,
                              Printed (''[ERROR!] Failed to log error to Azure Table Storage: '' @ m)]))
          else tbl = []))) \<and>
   (\<forall>e w'. log_error env self message stack_trace w = (Inl e, w') \<longrightarrow>
      (\<exists>s. console_fault env s = Some e))"
proof (intro conjI allI impI)
  fix e
  assume "console_fault env (''['' @ strftime (utcnow env (tick w)) ''%Y-%m-%d %H:%M:%S''
                               @ ''] [ERROR] '' @ message) = Some e"
  then show "\<exists>w'. log_error env self message stack_trace w = (Inl e, w') \<and>
            trace w' = trace w @ [LogErrorCalled message stack_trace]"
    by (simp add: log_error_def then_do_def mark_def datetime_utcnow_def print_def emit_def advance_def)
next
  assume ok: "console_ok env"
  define w1 where "w1 = emit (Printed (''['' @ strftime (utcnow env (tick w)) ''%Y-%m-%d %H:%M:%S'' @ ''] [ERROR] '' @ message))
     (advance (emit (LogErrorCalled message stack_trace) w))"
  obtain w2 rel t u where db: "log_error_database env self message stack_trace w1 = (Inr (), w2)"
      "trace w2 = trace w1 @ rel"
      "if self_connection self \<noteq> None \<and> 0 < self_job_instance_id self
       then db_attempt
              (error_calls self (''Error_'' @ strftime t ''%Y%m%d%H%M%S'' @ ''_'' @ take 8 u)
                 message stack_trace) rel
       else rel = []"
    using log_error_database_run [OF ok, of self message stack_trace w1] by blast
  obtain w3 tbl where tb: "log_error_table env self message stack_trace w2 = (Inr (), w3)"
      "trace w3 = trace w2 @ tbl"
      "if self_table_client self \<and> 0 < self_job_id self
      then \<exists>ent. Action ent = ''JobError'' \<and> Level ent = ''Error'' \<and>
             Details ent = error_message message stack_trace \<and>
             PartitionKey ent = get_partition_key self \<and>
             (tbl = [Tbl (CreateEntity ent) True] \<or>
              (\<exists>t. tbl = [Tbl (CreateEntity ent) False,
                          Printed (''[ERROR!] Failed to log error to Azure Table Storage: '' @ t)]))
      else tbl = []"
    using log_error_table_run [OF ok, of self message stack_trace w2] by blast
  have run: "log_error env self message stack_trace w = (Inr (), w3)"
    using db(1) tb(1) ok
    by (simp add: log_error_def then_do_def mark_def datetime_utcnow_def print_def w1_def emit_def
          advance_def console_ok_def)
  have tr: "trace w1 = trace w @ [LogErrorCalled message stack_trace,
        Printed (''['' @ strftime (utcnow env (tick w)) ''%Y-%m-%d %H:%M:%S'' @ ''] [ERROR] '' @ message)]"
    by (simp add: w1_def emit_def advance_def)
  show "\<exists>w' rel tbl t u. log_error env self message stack_trace w = (Inr (), w') \<and>
         trace w' = trace w @ [LogErrorCalled message stack_trace,
            Printed (''['' @ strftime (utcnow env (tick w)) ''%Y-%m-%d %H:%M:%S'' @ ''] [ERROR] '' @ message)]
            @ rel @ tbl \<and>
         (if self_connection self \<noteq> None \<and> 0 < self_job_instance_id self
          then db_attempt
                 (error_calls self (''Error_'' @ strftime t ''%Y%m%d%H%M%S'' @ ''_'' @ take 8 u)
                    message stack_trace) rel
          else rel = []) \<and>
         (if self_table_client self \<and> 0 < self_job_id self
          then \<exists>ent. Action ent = ''JobError'' \<and> Level ent = ''Error'' \<and>
                 Details ent = error_message message stack_trace \<and>
                 PartitionKey ent = get_partition_key self \<and>
                 (tbl = [Tbl (CreateEntity ent) True] \<or>
                  (\<exists>m. tbl = [Tbl (CreateEntity ent) False,
                              Printed (''[ERROR!] Failed to log error to Azure Table Storage: '' @ m)]))
          else tbl = [])"
    apply (rule exI [of _ w3], rule exI [of _ rel], rule exI [of _ tbl], rule exI [of _ t], rule exI [of _ u])
    using run tr db(2,3) tb(2,3) by simp
next
  fix e w'
  assume "log_error env self message stack_trace w = (Inl e, w')"
  with raises_only_log_error show "\<exists>s. console_fault env s = Some e"
    by (rule raises_onlyD)
qed

theorem log_error_sinks_and_console_witness:
  "console_ok example_env \<and>
   (\<exists>w' rel tbl t u.
      log_error example_env example_logger ''boom'' ''Traceback'' example_open_world = (Inr (), w') \<and>
      trace w' = trace example_open_world @ [LogErrorCalled ''boom'' ''Traceback'',
         Printed (''['' @ strftime (utcnow example_env (tick example_open_world)) ''%Y-%m-%d %H:%M:%S''
                   @ ''] [ERROR] '' @ ''boom'')] @ rel @ tbl \<and>
      db_attempt
        (error_calls example_logger (''Error_'' @ strftime t ''%Y%m%d%H%M%S'' @ ''_'' @ take 8 u)
           ''boom'' ''Traceback'') rel \<and>
      (\<exists>ent. Action ent = ''JobError'' \<and> Level ent = ''Error'' \<and>
         Details ent = error_message ''boom'' ''Traceback'' \<and>
         PartitionKey ent = get_partition_key example_logger \<and>
         (tbl = [Tbl (CreateEntity ent) True] \<or>
          (\<exists>m. tbl = [Tbl (CreateEntity ent) False,
                      Printed (''[ERROR!] Failed to log error to Azure Table Storage: '' @ m)])))) \<and>
   (\<exists>w'. log_error example_ascii_env example_logger example_accented ''Traceback'' example_open_world
            = (Inl (UnicodeEncodeError ''ascii codec cannot encode character''), w') \<and>
         trace w' = trace example_open_world @ [LogErrorCalled example_accented ''Traceback'']) \<and>
   (\<exists>s. console_fault example_ascii_env s = Some (UnicodeEncodeError ''ascii codec cannot encode character''))"
proof -
  have ok: "console_ok example_env"
    by (simp add: console_ok_def example_env_def)
  have lg: "self_connection example_logger \<noteq> None \<and> 0 < self_job_instance_id example_logger"
      "self_table_client example_logger \<and> 0 < self_job_id example_logger"
    by (simp_all add: example_logger_def)
  have bad: "console_fault example_ascii_env
       (''['' @ strftime (utcnow example_ascii_env (tick example_open_world)) ''%Y-%m-%d %H:%M:%S''
          @ ''] [ERROR] '' @ example_accented) = Some (UnicodeEncodeError ''ascii codec cannot encode character'')"
    by (simp add: example_ascii_env_def ascii_console_def example_accented_def)
  note a = log_error_sinks_and_console
    [of example_env example_open_world "''boom''" example_logger "''Traceback''"]
  note b = log_error_sinks_and_console
    [of example_ascii_env example_open_world example_accented example_logger "''Traceback''"]
  have one: "\<exists>w' rel tbl t u.
      log_error example_env example_logger ''boom'' ''Traceback'' example_open_world = (Inr (), w') \<and>
      trace w' = trace example_open_world @ [LogErrorCalled ''boom'' ''Traceback'',
         Printed (''['' @ strftime (utcnow example_env (tick example_open_world)) ''%Y-%m-%d %H:%M:%S''
                   @ ''] [ERROR] '' @ ''boom'')] @ rel @ tbl \<and>
      db_attempt
        (error_calls example_logger (''Error_'' @ strftime t ''%Y%m%d%H%M%S'' @ ''_'' @ take 8 u)
           ''boom'' ''Traceback'') rel \<and>
      (\<exists>ent. Action ent = ''JobError'' \<and> Level ent = ''Error'' \<and>
         Details ent = error_message ''boom'' ''Traceback'' \<and>
         PartitionKey ent = get_partition_key example_logger \<and>
         (tbl = [Tbl (CreateEntity ent) True] \<or>
          (\<exists>m. tbl = [Tbl (CreateEntity ent) False,
                      Printed (''[ERROR!] Failed to log error to Azure Table Storage: '' @ m)])))"
    using a [THEN conjunct2, THEN conjunct1, rule_format, OF ok]
    unfolding if_P [OF lg(1)] if_P [OF lg(2)] .
  have two: "\<exists>w'. log_error example_ascii_env example_logger example_accented ''Traceback'' example_open_world
            = (Inl (UnicodeEncodeError ''ascii codec cannot encode character''), w') \<and>
         trace w' = trace example_open_world @ [LogErrorCalled example_accented ''Traceback'']"
    using b [THEN conjunct1, rule_format, OF bad] .
  then obtain w' where "log_error example_ascii_env example_logger example_accented ''Traceback'' example_open_world
            = (Inl (UnicodeEncodeError ''ascii codec cannot encode character''), w')"
    by blast
  then have three: "\<exists>s. console_fault example_ascii_env s = Some (UnicodeEncodeError ''ascii codec cannot encode character'')"
    using b [THEN conjunct2, THEN conjunct2, rule_format] by blast
  from ok one two three show ?thesis by blast
qed

text \<open>
  The claim as written fails: on a console that encodes ASCII only, \<open>log_error\<close> with
  an accented message raises \<open>UnicodeEncodeError\<close> and attempts neither store.
\<close>

theorem log_error_console_failure_counterexample:
  "fst (log_error example_ascii_env example_logger example_accented ''Traceback'' example_open_world)
     = Inl (UnicodeEncodeError ''ascii codec cannot encode character'') \<and>
   trace (snd (log_error example_ascii_env example_logger example_accented ''Traceback'' example_open_world))
     = [LogErrorCalled example_accented ''Traceback'']"
  by (simp add: eval_defs example_ascii_env_def ascii_console_def example_accented_def)

text \<open>
  C9, as the code has it. \<open>close\<close> on a logger without a connection does nothing. On a
  logger whose connection is open it releases the connection. The logger keeps the
  handle, so a second \<open>close\<close> calls the driver again on the closed connection: the
  driver raises, and the failure reaches the caller.
\<close>

theorem close_releases_then_raises:
  "(self_connection self = None \<longrightarrow> close self w = (Inr (), w)) \<and>
   (self_connection self = Some h \<and> sessions w h \<noteq> None \<longrightarrow>
      (\<exists>w'. close self w = (Inr (), w') \<and> sessions w' h = None \<and>
            trace w' = trace w @ [Db Close True] \<and>
            (\<exists>w''. close self w' = (Inl closed_connection, w'') \<and>
                   trace w'' = trace w' @ [Db Close False] \<and> sessions w'' = sessions w')))"
  by (auto simp: close_def prog_defs driver_defs split: option.splits)

theorem close_releases_then_raises_witness:
  "self_connection example_logger = Some 0 \<and> sessions example_open_world 0 \<noteq> None \<and>
   (\<exists>w'. close example_logger example_open_world = (Inr (), w') \<and> sessions w' 0 = None \<and>
         trace w' = trace example_open_world @ [Db Close True] \<and>
         (\<exists>w''. close example_logger w' = (Inl closed_connection, w'') \<and>
                trace w'' = trace w' @ [Db Close False] \<and> sessions w'' = sessions w'))"
  using close_releases_then_raises [of example_logger example_open_world 0]
  by (simp add: example_logger_def example_open_world_def)

text \<open>
  The claim as written fails: after a successful \<open>close\<close>, a second \<open>close\<close> raises.
\<close>

theorem close_twice_counterexample:
  "fst (close example_logger example_open_world) = Inr () \<and>
   fst (close example_logger (snd (close example_logger example_open_world))) = Inl closed_connection"
  by (simp add: close_def connection_close_def emit_def example_logger_def example_open_world_def)

text \<open>
  C4. The partition key of a logger is the text \<open>{job id}-{instance id}\<close> built from the
  job identifier the logger resolved (\<open>5-12\<close> for job 5, instance 12). In every run of
  \<open>execute_job\<close> each entity the table store accepts carries that one key, and with
  the identifier unresolved (not positive) the run writes no entity. The source
  builds the key anew at each write, from fields that never change after
  construction.
\<close>

theorem partition_key_of_every_written_entity:
  assumes parse: "parse_settings env app_settings w = (Inr (cs, tcs), w0)"
      and init: "JobLogger_init env cs job_instance_id tcs w0 = (Inr logger, w1)"
      and run: "execute_job env app_settings job_agent_id job_id job_instance_id job_schedule_id w = (r, w')"
  shows "get_partition_key logger = str_int (self_job_id logger) @ ''-'' @ str_int job_instance_id \<and>
         (self_job_id logger = 5 \<and> job_instance_id = 12 \<longrightarrow> get_partition_key logger = ''5-12'') \<and>
         (\<exists>new. written (trace w') = written (trace w) @ new \<and>
                (\<forall>ent \<in> set new. PartitionKey ent = get_partition_key logger) \<and>
                (self_job_id logger \<le> 0 \<longrightarrow> new = []))"
proof -
  have key: "get_partition_key logger = str_int (self_job_id logger) @ ''-'' @ str_int job_instance_id"
    using init_fields(1) [OF init] by (simp add: get_partition_key_def)
  have five: "self_job_id logger = 5 \<and> job_instance_id = 12 \<longrightarrow> get_partition_key logger = ''5-12''"
    using key by (simp add: str_int_def str_nat.simps digit_def)
  obtain evs where ev: "written (trace w') = written (trace w) @ written evs"
      "list_all (run_event logger) evs"
    using execute_job_entities [OF parse init run] by blast
  have all: "\<forall>ent \<in> set (written evs). PartitionKey ent = get_partition_key logger"
    using written_run [OF ev(2)] by blast
  have none: "self_job_id logger \<le> 0 \<longrightarrow> written evs = []"
  proof
    assume z: "self_job_id logger \<le> 0"
    show "written evs = []"
    proof (cases "written evs")
      case Nil
      then show ?thesis .
    next
      case (Cons ent rest)
      then have "ent \<in> set (written evs)" by simp
      from written_run [OF ev(2) this] z show ?thesis by simp
    qed
  qed
  from key five ev(1) all none show ?thesis by blast
qed

theorem partition_key_of_every_written_entity_witness:
  "\<exists>r w' new.
      execute_job example_env (Some ''settings'') 1 0 12 3 example_world = (r, w') \<and>
      written (trace w') = written (trace example_world) @ new \<and>
      list_all (\<lambda>ent. PartitionKey ent = ''5-12'') new \<and> new \<noteq> []"
proof -
  let ?cs = "JStr ''Server=db;Encrypt=true''" and ?tcs = "JStr ''UseDevelopmentStorage=true''"
  define w1 where "w1 = snd (JobLogger_init example_env ?cs 12 ?tcs example_world)"
  define r where "r = fst (execute_job example_env (Some ''settings'') 1 0 12 3 example_world)"
  define w' where "w' = snd (execute_job example_env (Some ''settings'') 1 0 12 3 example_world)"
  have parse: "parse_settings example_env (Some ''settings'') example_world = (Inr (?cs, ?tcs), example_world)"
    by (simp add: eval_defs)
  have "fst (JobLogger_init example_env ?cs 12 ?tcs example_world) = Inr example_logger"
    by (simp add: eval_defs)
  then have init: "JobLogger_init example_env ?cs 12 ?tcs example_world = (Inr example_logger, w1)"
    by (simp add: w1_def prod_eq_iff)
  have run: "execute_job example_env (Some ''settings'') 1 0 12 3 example_world = (r, w')"
    by (simp add: r_def w'_def)
  have some: "written (trace w') \<noteq> []"
    unfolding w'_def by (simp add: eval_defs Let_def)
  from partition_key_of_every_written_entity [OF parse init run]
  obtain new where n: "written (trace w') = written (trace example_world) @ new"
      "\<forall>ent \<in> set new. PartitionKey ent = get_partition_key example_logger"
    by blast
  have "get_partition_key example_logger = ''5-12''"
    by (simp add: eval_defs)
  with n(2) have "list_all (\<lambda>ent. PartitionKey ent = ''5-12'') new"
    by (simp add: list_all_iff)
  moreover have "new \<noteq> []"
    using some n(1) by (simp add: example_world_def)
  ultimately show ?thesis
    using run n(1) by blast
qed

text \<open>
  C10. The logger is built from the settings and the instance identifier alone; the
  job identifier the caller supplies does not reach it. Every entity a run writes
  carries the logger's own job identifier, in \<open>JobId\<close> and in the partition key, and
  is written only with that identifier positive. A logger without a connection has
  identifier 0, and with identifier 0 the run makes no attempt to write an entity,
  whatever the caller supplied; yet with a positive supplied identifier the third
  entry of the returned log announces the partition key built from the supplied
  one.
\<close>

theorem table_sink_follows_resolved_job_id:
  assumes parse: "parse_settings env app_settings w = (Inr (cs, tcs), w0)"
      and init: "JobLogger_init env cs job_instance_id tcs w0 = (Inr logger, w1)"
      and run: "execute_job env app_settings job_agent_id job_id job_instance_id job_schedule_id w = (r, w')"
  shows "(\<exists>new. written (trace w') = written (trace w) @ new \<and>
            (\<forall>ent \<in> set new. self_table_client logger \<and> 0 < self_job_id logger \<and>
                PartitionKey ent = get_partition_key logger \<and> JobId ent = self_job_id logger)) \<and>
         (self_connection logger = None \<longrightarrow> self_job_id logger = 0) \<and>
         (self_job_id logger = 0 \<longrightarrow>
            (\<exists>evs. trace w' = trace w @ evs \<and>
                   \<not> list_ex (\<lambda>ev. \<exists>ent ok. ev = Tbl (CreateEntity ent) ok) evs)) \<and>
         (\<forall>logs. r = Inr logs \<and> 0 < job_id \<longrightarrow>
            logs ! 2 = ''Log partition key: '' @ str_int job_id @ ''-'' @ str_int job_instance_id)"
proof -
  obtain evs where ev: "written (trace w') = written (trace w) @ written evs"
      "list_all (run_event logger) evs"
    using execute_job_entities [OF parse init run] by blast
  have one: "\<forall>ent \<in> set (written evs). self_table_client logger \<and> 0 < self_job_id logger \<and>
                PartitionKey ent = get_partition_key logger \<and> JobId ent = self_job_id logger"
    using written_run [OF ev(2)] by blast
  have two: "self_connection logger = None \<longrightarrow> self_job_id logger = 0"
    using init_fields(2) [OF init] by blast
  have three: "self_job_id logger = 0 \<longrightarrow>
            (\<exists>evs. trace w' = trace w @ evs \<and>
                   \<not> list_ex (\<lambda>ev. \<exists>ent ok. ev = Tbl (CreateEntity ent) ok) evs)"
  proof
    assume z: "self_job_id logger = 0"
    obtain evs0 evs1 where t: "trace w' = trace w @ evs0 @ evs1" "list_all setup_event evs0"
        "list_all (run_event logger) evs1"
      using execute_job_trace [OF parse init run] by blast
    have "\<not> list_ex (\<lambda>ev. \<exists>ent ok. ev = Tbl (CreateEntity ent) ok) evs1"
      by (rule run_event_no_entity [OF t(3)]) (simp add: z)
    moreover have "\<not> list_ex (\<lambda>ev. \<exists>ent ok. ev = Tbl (CreateEntity ent) ok) evs0"
      using t(2) by (auto simp: list_all_iff list_ex_iff)
    ultimately show "\<exists>evs. trace w' = trace w @ evs \<and>
                   \<not> list_ex (\<lambda>ev. \<exists>ent ok. ev = Tbl (CreateEntity ent) ok) evs"
      using t(1) by (intro exI [of _ "evs0 @ evs1"]) simp
  qed
  have four: "\<forall>logs. r = Inr logs \<and> 0 < job_id \<longrightarrow>
            logs ! 2 = ''Log partition key: '' @ str_int job_id @ ''-'' @ str_int job_instance_id"
  proof (intro allI impI)
    fix logs assume a: "r = Inr logs \<and> 0 < job_id"
    then have "adopt_job_id logger job_id = job_id"
      by (simp add: adopt_job_id_def)
    with execute_job_logs [OF parse init run [unfolded conjunct1 [OF a]]]
    show "logs ! 2 = ''Log partition key: '' @ str_int job_id @ ''-'' @ str_int job_instance_id"
      by (auto simp: partition_key_info_def)
  qed
  from ev(1) one two three four show ?thesis by blast
qed

theorem table_sink_follows_resolved_job_id_witness:
  "\<exists>logs w' evs.
      execute_job example_offline_env (Some ''settings'') 1 7 12 3 example_world = (Inr logs, w') \<and>
      trace w' = trace example_world @ evs \<and>
      \<not> list_ex (\<lambda>ev. \<exists>ent ok. ev = Tbl (CreateEntity ent) ok) evs \<and>
      logs ! 2 = ''Log partition key: 7-12''"
proof -
  let ?cs = "JStr ''Server=db;Encrypt=true''" and ?tcs = "JStr ''UseDevelopmentStorage=true''"
  let ?lg = "example_logger\<lparr>self_connection := None, self_job_id := 0\<rparr>"
  define w1 where "w1 = snd (JobLogger_init example_offline_env ?cs 12 ?tcs example_world)"
  define w' where "w' = snd (execute_job example_offline_env (Some ''settings'') 1 7 12 3 example_world)"
  have parse: "parse_settings example_offline_env (Some ''settings'') example_world = (Inr (?cs, ?tcs), example_world)"
    by (simp add: eval_defs example_offline_env_def)
  have "fst (JobLogger_init example_offline_env ?cs 12 ?tcs example_world) = Inr ?lg"
    by (simp add: eval_defs example_offline_env_def)
  then have init: "JobLogger_init example_offline_env ?cs 12 ?tcs example_world = (Inr ?lg, w1)"
    by (simp add: w1_def prod_eq_iff)
  have "\<exists>logs. fst (execute_job example_offline_env (Some ''settings'') 1 7 12 3 example_world) = Inr logs"
    by (simp add: eval_defs example_offline_env_def Let_def)
  then obtain logs where
    run: "execute_job example_offline_env (Some ''settings'') 1 7 12 3 example_world = (Inr logs, w')"
    by (auto simp: w'_def prod_eq_iff)
  from table_sink_follows_resolved_job_id [OF parse init run]
  show ?thesis
    using run by (auto simp: str_int_def str_nat.simps digit_def)
qed

text \<open>
  C5, as the code has it. First: when the settings are absent (none, or the empty
  text), are rejected by the parser with \<open>JSONDecodeError\<close>, or are a JSON object
  without the key \<open>ConnectionStrings\<close>, both descriptors are the empty text; the
  logger then has neither connection nor table client, and a run on a console that
  takes every line, in which no step raises a failure of its own, returns its log,
  which contains \<open>Job started\<close> and \<open>Job completed successfully!\<close>. Second: settings
  that are JSON but no object (\<open>null\<close>, a list, a number, a text) also lack the key,
  and there \<open>get\<close> raises \<open>AttributeError\<close>, which line 202 does not handle:
  \<open>execute_job\<close> raises it before the logger is built. Third: so does every failure
  of the parser other than \<open>JSONDecodeError\<close> (\<open>RecursionError\<close> on nesting too deep,
  \<open>ValueError\<close> on an integer literal too long).
\<close>

theorem settings_without_descriptors:
  "((app_settings = None \<or> app_settings = Some [] \<or>
     (\<exists>s. app_settings = Some s \<and> ((\<exists>m. json_loads env s = Inl (JSONDecodeError m)) \<or>
        (\<exists>kvs. json_loads env s = Inr (JDict kvs) \<and> map_of kvs ''ConnectionStrings'' = None)))) \<and>
    (\<forall>k. step_fault env k = None) \<and> console_ok env
    \<longrightarrow> parse_settings env app_settings w = (Inr (JStr [], JStr []), w) \<and>
        (\<exists>logger w1 logs w'.
            JobLogger_init env (JStr []) job_instance_id (JStr []) w = (Inr logger, w1) \<and>
            self_connection logger = None \<and> \<not> self_table_client logger \<and>
            execute_job env app_settings job_agent_id job_id job_instance_id job_schedule_id w = (Inr logs, w') \<and>
            ''Job started'' \<in> set logs \<and> ''Job completed successfully!'' \<in> set logs)) \<and>
   (\<forall>s v. app_settings = Some s \<and> s \<noteq> [] \<and> json_loads env s = Inr v \<and> (\<forall>kvs. v \<noteq> JDict kvs)
      \<longrightarrow> execute_job env app_settings job_agent_id job_id job_instance_id job_schedule_id w
            = (Inl (no_attribute v ''get''), w)) \<and>
   (\<forall>s e. app_settings = Some s \<and> s \<noteq> [] \<and> json_loads env s = Inl e \<and> (\<forall>m. e \<noteq> JSONDecodeError m)
      \<longrightarrow> execute_job env app_settings job_agent_id job_id job_instance_id job_schedule_id w = (Inl e, w))"
proof (intro conjI allI impI)
  assume a: "(app_settings = None \<or> app_settings = Some [] \<or>
     (\<exists>s. app_settings = Some s \<and> ((\<exists>m. json_loads env s = Inl (JSONDecodeError m)) \<or>
        (\<exists>kvs. json_loads env s = Inr (JDict kvs) \<and> map_of kvs ''ConnectionStrings'' = None)))) \<and>
    (\<forall>k. step_fault env k = None) \<and> console_ok env"
  then have blob: "app_settings = None \<or> app_settings = Some [] \<or>
     (\<exists>s. app_settings = Some s \<and> ((\<exists>m. json_loads env s = Inl (JSONDecodeError m)) \<or>
        (\<exists>kvs. json_loads env s = Inr (JDict kvs) \<and> map_of kvs ''ConnectionStrings'' = None)))"
    and nofault: "\<forall>k. step_fault env k = None" and ok: "console_ok env"
    by simp_all
  show parse: "parse_settings env app_settings w = (Inr (JStr [], JStr []), w)"
    using blob by (rule parse_settings_empty)
  obtain lg w1 where init: "JobLogger_init env (JStr []) job_instance_id (JStr []) w = (Inr lg, w1)"
      and lg: "self_connection lg = None" "\<not> self_table_client lg"
    using init_empty [OF ok] by blast
  have "total (running env lg job_agent_id (adopt_job_id lg job_id) job_instance_id job_schedule_id)"
    using nofault ok by (intro total_running) simp_all
  then obtain logs w2 where
    body: "running env lg job_agent_id (adopt_job_id lg job_id) job_instance_id job_schedule_id w1 = (Inr logs, w2)"
    using totalD by blast
  obtain w' where
    run: "execute_job env app_settings job_agent_id job_id job_instance_id job_schedule_id w = (Inr logs, w')"
    using execute_job_returns [OF parse init body ok] by blast
  obtain mid where "logs = [''Job started'',
      exec_info job_agent_id (adopt_job_id lg job_id) job_instance_id job_schedule_id,
      partition_key_info (adopt_job_id lg job_id) job_instance_id] @ mid @ [''Job completed successfully!'']"
    using execute_job_logs [OF parse init run] by blast
  then have "''Job started'' \<in> set logs" "''Job completed successfully!'' \<in> set logs"
    by simp_all
  with init lg run show "\<exists>logger w1 logs w'.
            JobLogger_init env (JStr []) job_instance_id (JStr []) w = (Inr logger, w1) \<and>
            self_connection logger = None \<and> \<not> self_table_client logger \<and>
            execute_job env app_settings job_agent_id job_id job_instance_id job_schedule_id w = (Inr logs, w') \<and>
            ''Job started'' \<in> set logs \<and> ''Job completed successfully!'' \<in> set logs"
    by blast
next
  fix s v
  assume "app_settings = Some s \<and> s \<noteq> [] \<and> json_loads env s = Inr v \<and> (\<forall>kvs. v \<noteq> JDict kvs)"
  then show "execute_job env app_settings job_agent_id job_id job_instance_id job_schedule_id w
            = (Inl (no_attribute v ''get''), w)"
    by (auto intro: execute_job_parse_failure parse_settings_not_object)
next
  fix s e
  assume "app_settings = Some s \<and> s \<noteq> [] \<and> json_loads env s = Inl e \<and> (\<forall>m. e \<noteq> JSONDecodeError m)"
  then show "execute_job env app_settings job_agent_id job_id job_instance_id job_schedule_id w = (Inl e, w)"
    by (auto intro: execute_job_parse_failure parse_settings_other_failure)
qed

theorem settings_without_descriptors_witness:
  "(\<exists>logs w'. execute_job example_env (Some ''{ not json'') 1 5 12 3 example_world = (Inr logs, w') \<and>
       ''Job started'' \<in> set logs \<and> ''Job completed successfully!'' \<in> set logs) \<and>
   (\<exists>logs w'. execute_job example_env (Some ''{}'') 1 5 12 3 example_world = (Inr logs, w') \<and>
       ''Job started'' \<in> set logs \<and> ''Job completed successfully!'' \<in> set logs) \<and>
   execute_job example_env (Some ''[]'') 1 5 12 3 example_world
     = (Inl (no_attribute (JList []) ''get''), example_world) \<and>
   execute_job example_deep_env (Some ''[[[['') 1 5 12 3 example_world
     = (Inl (RecursionError ''maximum recursion depth exceeded''), example_world)"
proof -
  have nofault: "\<forall>k. step_fault example_env k = None" and ok: "console_ok example_env"
    by (simp_all add: example_env_def console_ok_def)
  have blob1: "Some ''{ not json'' = None \<or> Some ''{ not json'' = Some [] \<or>
     (\<exists>s. Some ''{ not json'' = Some s \<and> ((\<exists>m. json_loads example_env s = Inl (JSONDecodeError m)) \<or>
        (\<exists>kvs. json_loads example_env s = Inr (JDict kvs) \<and> map_of kvs ''ConnectionStrings'' = None)))"
    by (simp add: example_env_def example_loads_def)
  have blob2: "Some ''{}'' = None \<or> Some ''{}'' = Some [] \<or>
     (\<exists>s. Some ''{}'' = Some s \<and> ((\<exists>m. json_loads example_env s = Inl (JSONDecodeError m)) \<or>
        (\<exists>kvs. json_loads example_env s = Inr (JDict kvs) \<and> map_of kvs ''ConnectionStrings'' = None)))"
    by (simp add: example_env_def example_loads_def)
  have list: "Some ''[]'' = Some ''[]'' \<and> ''[]'' \<noteq> [] \<and> json_loads example_env ''[]'' = Inr (JList []) \<and>
      (\<forall>kvs. JList [] \<noteq> JDict kvs)"
    by (simp add: example_env_def example_loads_def)
  have deep: "Some ''[[[['' = Some ''[[[['' \<and> ''[[[['' \<noteq> [] \<and>
      json_loads example_deep_env ''[[[['' = Inl (RecursionError ''maximum recursion depth exceeded'') \<and>
      (\<forall>m. RecursionError ''maximum recursion depth exceeded'' \<noteq> JSONDecodeError m)"
    by (simp add: example_deep_env_def)
  note a = settings_without_descriptors
    [where env = example_env and w = example_world and job_instance_id = 12 and job_agent_id = 1
       and job_id = 5 and job_schedule_id = 3]
  have one: "\<exists>logs w'. execute_job example_env (Some ''{ not json'') 1 5 12 3 example_world = (Inr logs, w') \<and>
       ''Job started'' \<in> set logs \<and> ''Job completed successfully!'' \<in> set logs"
    using a [where app_settings = "Some ''{ not json''", THEN conjunct1] blob1 nofault ok by blast
  have two: "\<exists>logs w'. execute_job example_env (Some ''{}'') 1 5 12 3 example_world = (Inr logs, w') \<and>
       ''Job started'' \<in> set logs \<and> ''Job completed successfully!'' \<in> set logs"
    using a [where app_settings = "Some ''{}''", THEN conjunct1] blob2 nofault ok by blast
  have three: "execute_job example_env (Some ''[]'') 1 5 12 3 example_world
     = (Inl (no_attribute (JList []) ''get''), example_world)"
    using a [where app_settings = "Some ''[]''", THEN conjunct2, THEN conjunct1] list by blast
  have four: "execute_job example_deep_env (Some ''[[[['') 1 5 12 3 example_world
     = (Inl (RecursionError ''maximum recursion depth exceeded''), example_world)"
    using settings_without_descriptors
      [where env = example_deep_env and w = example_world and job_instance_id = 12 and job_agent_id = 1
         and job_id = 5 and job_schedule_id = 3 and app_settings = "Some ''[[[[''",
       THEN conjunct2, THEN conjunct2] deep by blast
  from one two three four show ?thesis by blast
qed

text \<open>
  The claim as written fails: the settings \<open>[]\<close> are JSON and lack the key
  \<open>ConnectionStrings\<close>, and \<open>execute_job\<close> raises \<open>AttributeError\<close>.
\<close>

theorem settings_not_an_object_counterexample:
  "json_loads example_env ''[]'' = Inr (JList []) \<and>
   fst (execute_job example_env (Some ''[]'') 1 5 12 3 example_world)
     = Inl (AttributeError (quoted ''list'' @ '' object has no attribute '' @ quoted ''get''))"
  by (simp add: eval_defs no_attribute_def)



text \<open>
  C3. The update of the last run time (the \<open>finally\<close> block, lines 297-322) is an
  upsert. First, whatever the driver does: if no job has two rows under the
  descriptor \<open>Last Job Run Time\<close>, neither in the connection's view nor in the stored
  database, the same holds after the update. Second, with a driver that does not
  fail: for a job without such a row the first update appends exactly one row, whose
  value is the time read at that update, and commits it; a second update changes the
  value and the audit columns of that same row and nothing else, so the job still
  has one row under the descriptor.
\<close>

theorem last_run_time_is_upserted:
  "(self_connection logger = Some h \<and> 0 < job_id \<and> sessions w h = Some d \<and>
    run_records_unique d \<and> run_records_unique (stored w) \<and>
    update_last_run_time env logger job_id w = (r, w')
    \<longrightarrow> (\<forall>d'. sessions w' h = Some d' \<longrightarrow> run_records_unique d') \<and> run_records_unique (stored w')) \<and>
   (self_connection logger = Some h \<and> 0 < job_id \<and> sessions w h = Some d \<and>
    filter (is_last_run job_id) (JobData d) = [] \<and> (\<forall>n. db_fault env n = None)
    \<longrightarrow> (\<exists>w1 w2 row.
          update_last_run_time env logger job_id w = (Inr (), w1) \<and>
          sessions w1 h = Some (stored w1) \<and>
          JobData (stored w1) = JobData d @ [row] \<and>
          filter (is_last_run job_id) (JobData (stored w1)) = [row] \<and>
          jd_JobDateValue row = Some (utcnow env (tick w + 3)) \<and>
          update_last_run_time env logger job_id w1 = (Inr (), w2) \<and>
          sessions w2 h = Some (stored w2) \<and>
          JobData (stored w2) =
            JobData d @ [row\<lparr>jd_JobDateValue := Some (utcnow env (tick w1 + 3)),
                              jd_UpdatedDate := Some (utcnow env (tick w1 + 4)),
                              jd_UpdatedBy := Some ''JobExecutor''\<rparr>] \<and>
          filter (is_last_run job_id) (JobData (stored w2)) =
            [row\<lparr>jd_JobDateValue := Some (utcnow env (tick w1 + 3)),
                  jd_UpdatedDate := Some (utcnow env (tick w1 + 4)),
                  jd_UpdatedBy := Some ''JobExecutor''\<rparr>]))"
proof (intro conjI impI)
  assume a: "self_connection logger = Some h \<and> 0 < job_id \<and> sessions w h = Some d \<and>
    run_records_unique d \<and> run_records_unique (stored w) \<and>
    update_last_run_time env logger job_id w = (r, w')"
  then have conn: "self_connection logger = Some h" and pos: "0 < job_id"
    and opn: "sessions w h = Some d" and u: "run_records_unique d"
    and us: "run_records_unique (stored w)"
    and run: "update_last_run_time env logger job_id w = (r, w')"
    by simp_all
  note v = update_view [OF conn pos opn run]
  show view: "\<forall>d'. sessions w' h = Some d' \<longrightarrow> run_records_unique d'"
  proof (intro allI impI)
    fix d' assume s: "sessions w' h = Some d'"
    from v have "sessions w' h = Some d \<or>
           (\<exists>row_id rest. select_last_run_id job_id d = row_id # rest \<and>
               sessions w' h = Some (apply_stmt (utcnow env (Suc (Suc (Suc (Suc (tick w))))))
                                      (UpdateLastRun (utcnow env (Suc (Suc (Suc (tick w))))) row_id) d)) \<or>
           (select_last_run_id job_id d = [] \<and>
               sessions w' h = Some (apply_stmt (utcnow env (Suc (Suc (Suc (Suc (tick w))))))
                                      (InsertLastRun job_id (utcnow env (Suc (Suc (Suc (tick w)))))) d))"
      by (rule conjunct1)
    then show "run_records_unique d'"
    proof (elim disjE exE conjE)
      assume "sessions w' h = Some d"
      with s u show ?thesis by simp
    next
      fix row_id rest
      assume "sessions w' h = Some (apply_stmt (utcnow env (Suc (Suc (Suc (Suc (tick w))))))
                                      (UpdateLastRun (utcnow env (Suc (Suc (Suc (tick w))))) row_id) d)"
      with s have "d' = apply_stmt (utcnow env (Suc (Suc (Suc (Suc (tick w))))))
                                      (UpdateLastRun (utcnow env (Suc (Suc (Suc (tick w))))) row_id) d"
        by simp
      then show ?thesis using u by (simp only: unique_update)
    next
      assume e: "select_last_run_id job_id d = []"
        and "sessions w' h = Some (apply_stmt (utcnow env (Suc (Suc (Suc (Suc (tick w))))))
                                      (InsertLastRun job_id (utcnow env (Suc (Suc (Suc (tick w)))))) d)"
      with s have "d' = apply_stmt (utcnow env (Suc (Suc (Suc (Suc (tick w))))))
                                      (InsertLastRun job_id (utcnow env (Suc (Suc (Suc (tick w)))))) d"
        by simp
      then show ?thesis using u e by (simp only: unique_insert)
    qed
  qed
  from v have "stored w' = stored w \<or> sessions w' h = Some (stored w')"
    by (rule conjunct2)
  then show "run_records_unique (stored w')"
    using us view by auto
next
  assume a: "self_connection logger = Some h \<and> 0 < job_id \<and> sessions w h = Some d \<and>
    filter (is_last_run job_id) (JobData d) = [] \<and> (\<forall>n. db_fault env n = None)"
  then have conn: "self_connection logger = Some h" and pos: "0 < job_id"
    and opn: "sessions w h = Some d" and absent: "filter (is_last_run job_id) (JobData d) = []"
    and nofault: "\<forall>n. db_fault env n = None"
    by simp_all
  define row where "row = \<lparr>jd_Id = fresh_id (JobData d), jd_JobId = job_id,
           jd_JobFieldDescription = ''Last Job Run Time'',
           jd_JobStringValue = None, jd_JobDateValue = Some (utcnow env (tick w + 3)),
           jd_CreatedDate = Some (utcnow env (tick w + 4)), jd_CreatedBy = Some ''JobExecutor'',
           jd_UpdatedDate = None, jd_UpdatedBy = None\<rparr>"
  have sel: "select_last_run_id job_id d = []"
    using absent by (simp add: select_last_run_id_def)
  obtain w1 where r1: "update_last_run_time env logger job_id w = (Inr (), w1)"
      and t1: "tick w1 = tick w + 6" and v1: "sessions w1 h = Some (stored w1)"
      and s1: "stored w1 = apply_stmt (utcnow env (tick w + 4)) (InsertLastRun job_id (utcnow env (tick w + 3))) d"
    using update_no_fault [OF conn pos opn nofault] sel by auto
  have d1: "JobData (stored w1) = JobData d @ [row]"
    by (simp add: s1 row_def)
  have f1: "filter (is_last_run job_id) (JobData (stored w1)) = [row]"
    using absent by (simp add: d1) (simp add: row_def is_last_run_def)
  have sel1: "select_last_run_id job_id (stored w1) = [fresh_id (JobData d)]"
    using f1 by (simp add: select_last_run_id_def row_def)
  obtain w2 where r2: "update_last_run_time env logger job_id w1 = (Inr (), w2)"
      and v2: "sessions w2 h = Some (stored w2)"
      and s2: "stored w2 = apply_stmt (utcnow env (tick w1 + 4))
                 (UpdateLastRun (utcnow env (tick w1 + 3)) (fresh_id (JobData d))) (stored w1)"
    using update_no_fault [OF conn pos v1 nofault] sel1 by auto
  let ?row' = "row\<lparr>jd_JobDateValue := Some (utcnow env (tick w1 + 3)),
                    jd_UpdatedDate := Some (utcnow env (tick w1 + 4)),
                    jd_UpdatedBy := Some ''JobExecutor''\<rparr>"
  have d2: "JobData (stored w2) = JobData d @ [?row']"
    by (simp add: s2 d1 update_other_rows) (simp add: row_def)
  have f2: "filter (is_last_run job_id) (JobData (stored w2)) = [?row']"
    using absent by (simp add: d2) (simp add: row_def is_last_run_def)
  have "jd_JobDateValue row = Some (utcnow env (tick w + 3))"
    by (simp add: row_def)
  with r1 v1 d1 f1 r2 v2 d2 f2 show "\<exists>w1 w2 row.
          update_last_run_time env logger job_id w = (Inr (), w1) \<and>
          sessions w1 h = Some (stored w1) \<and>
          JobData (stored w1) = JobData d @ [row] \<and>
          filter (is_last_run job_id) (JobData (stored w1)) = [row] \<and>
          jd_JobDateValue row = Some (utcnow env (tick w + 3)) \<and>
          update_last_run_time env logger job_id w1 = (Inr (), w2) \<and>
          sessions w2 h = Some (stored w2) \<and>
          JobData (stored w2) =
            JobData d @ [row\<lparr>jd_JobDateValue := Some (utcnow env (tick w1 + 3)),
                              jd_UpdatedDate := Some (utcnow env (tick w1 + 4)),
                              jd_UpdatedBy := Some ''JobExecutor''\<rparr>] \<and>
          filter (is_last_run job_id) (JobData (stored w2)) =
            [row\<lparr>jd_JobDateValue := Some (utcnow env (tick w1 + 3)),
                  jd_UpdatedDate := Some (utcnow env (tick w1 + 4)),
                  jd_UpdatedBy := Some ''JobExecutor''\<rparr>]"
    by blast
qed


theorem last_run_time_is_upserted_witness:
  "run_records_unique (stored (snd (update_last_run_time example_env example_logger 5 example_open_world))) \<and>
   (\<exists>w1 w2 row.
      update_last_run_time example_env example_logger 5 example_open_world = (Inr (), w1) \<and>
      JobData (stored w1) = [row] \<and> jd_JobDateValue row = Some example_time \<and>
      update_last_run_time example_env example_logger 5 w1 = (Inr (), w2) \<and>
      length (filter (is_last_run 5) (JobData (stored w2))) = 1)"
proof -
  let ?run = "update_last_run_time example_env example_logger 5 example_open_world"
  have conn: "self_connection example_logger = Some 0" and pos: "0 < (5::int)"
    and opn: "sessions example_open_world 0 = Some example_database"
    and u: "run_records_unique example_database"
    and us: "run_records_unique (stored example_open_world)"
    and absent: "filter (is_last_run 5) (JobData example_database) = []"
    and nofault: "\<forall>n. db_fault example_env n = None"
    by (simp_all add: example_logger_def example_open_world_def example_database_def
          example_env_def run_records_unique_def)
  have run: "?run = (fst ?run, snd ?run)"
    by simp
  note inst = last_run_time_is_upserted [where logger = example_logger and h = 0 and job_id = 5
      and w = example_open_world and d = example_database and r = "fst ?run" and w' = "snd ?run"
      and env = example_env]
  have a: "run_records_unique (stored (snd ?run))"
    using inst conn pos opn u us run by blast
  have "\<exists>w1 w2 row.
      ?run = (Inr (), w1) \<and>
      JobData (stored w1) = JobData example_database @ [row] \<and>
      jd_JobDateValue row = Some (utcnow example_env (tick example_open_world + 3)) \<and>
      update_last_run_time example_env example_logger 5 w1 = (Inr (), w2) \<and>
      filter (is_last_run 5) (JobData (stored w2)) =
            [row\<lparr>jd_JobDateValue := Some (utcnow example_env (tick w1 + 3)),
                  jd_UpdatedDate := Some (utcnow example_env (tick w1 + 4)),
                  jd_UpdatedBy := Some ''JobExecutor''\<rparr>]"
    using inst conn pos opn absent nofault by blast
  then have b: "\<exists>w1 w2 row.
      ?run = (Inr (), w1) \<and>
      JobData (stored w1) = [row] \<and> jd_JobDateValue row = Some example_time \<and>
      update_last_run_time example_env example_logger 5 w1 = (Inr (), w2) \<and>
      length (filter (is_last_run 5) (JobData (stored w2))) = 1"
    by (auto simp: example_database_def example_env_def)
  from a b show ?thesis ..
qed

end
